theory Spec2Isabelle
  imports Complex_Main "HOL-Library.Sublist"
begin

section \<open>Python values, strings and exceptions\<close>

text \<open>
  The collectors handle three kinds of Python data: strings (topics, page texts), the
  values that \<^verbatim>\<open>response.json()\<close> returns, and the dictionaries they build as output
  records. One datatype covers the last two. A Python \<^verbatim>\<open>dict\<close> is an association list in
  insertion order with distinct keys, read with \<open>map_of\<close>. Strings are lists of 8-bit
  characters, one character per code point, that is, the code points 0 to 255. On these
  \<open>lower\<close> and \<open>is_cased\<close> below are Python's, and \<open>title\<close> is Python's but for
  the two characters whose title case is a code point above 255 (0xB5 and 0xFF), which
  stay as they are. No character outside ASCII lowers to a letter of the six topic
  keys, so catalog lookups are the same on every Python string.
\<close>

datatype json =
    JNull
  | JBool bool
  | JInt int
  | JFloat rat
  | JStr string
  | JArr "json list"
  | JObj "(string \<times> json) list"

datatype exn_kind =
    RequestException | HTTPError | JSONDecodeError
  | TypeError | KeyError | IndexError | AttributeError | LibraryError

text \<open>
  An exception carries its class and the text \<^verbatim>\<open>str(e)\<close>. For the errors the interpreter
  raises on a malformed body the model keeps a short text; in the code those texts only
  ever reach \<^verbatim>\<open>logging\<close>, which is not modelled.
\<close>

datatype exn = Exn exn_kind string

fun str_exn :: "exn \<Rightarrow> string" where
  "str_exn (Exn k m) = m"

definition py_bind :: "exn + 'a \<Rightarrow> ('a \<Rightarrow> exn + 'b) \<Rightarrow> exn + 'b" where
  "py_bind m f = (case m of Inl e \<Rightarrow> Inl e | Inr x \<Rightarrow> f x)"

subsection \<open>String methods\<close>

definition lower_char :: "char \<Rightarrow> char" where
  "lower_char c =
     (let n = (of_char c :: nat)
      in if (65 \<le> n \<and> n \<le> 90) \<or> (192 \<le> n \<and> n \<le> 214) \<or> (216 \<le> n \<and> n \<le> 222)
         then char_of (n + 32) else c)"

text \<open>
  The title case of one character: a lower-case letter becomes its capital and the
  sharp s (0xDF) becomes \<^verbatim>\<open>Ss\<close>.
\<close>

definition title_char :: "char \<Rightarrow> string" where
  "title_char c =
     (let n = (of_char c :: nat)
      in if (97 \<le> n \<and> n \<le> 122) \<or> (224 \<le> n \<and> n \<le> 246) \<or> (248 \<le> n \<and> n \<le> 254)
         then [char_of (n - 32)]
         else if n = 223 then ''Ss'' else [c])"

definition is_cased :: "char \<Rightarrow> bool" where
  "is_cased c =
     (let n = (of_char c :: nat)
      in (65 \<le> n \<and> n \<le> 90) \<or> (97 \<le> n \<and> n \<le> 122) \<or> n = 170 \<or> n = 181 \<or> n = 186 \<or>
         (192 \<le> n \<and> n \<le> 214) \<or> (216 \<le> n \<and> n \<le> 246) \<or> (248 \<le> n \<and> n \<le> 255))"

definition is_digit :: "char \<Rightarrow> bool" where
  "is_digit c = (let n = (of_char c :: nat) in 48 \<le> n \<and> n \<le> 57)"

text \<open>\<^verbatim>\<open>s.lower()\<close>\<close>

definition lower :: "string \<Rightarrow> string" where
  "lower s = map lower_char s"

text \<open>
  \<^verbatim>\<open>s.title()\<close>: a character takes its title case when the character before it is not
  cased, and its lower case otherwise.
\<close>

fun title_from :: "bool \<Rightarrow> string \<Rightarrow> string" where
  "title_from prev [] = []"
| "title_from prev (c # cs) =
     (if prev then [lower_char c] else title_char c) @ title_from (is_cased c) cs"

definition title :: "string \<Rightarrow> string" where
  "title s = title_from False s"

text \<open>\<^verbatim>\<open>sub in s\<close> on strings.\<close>

fun contains :: "string \<Rightarrow> string \<Rightarrow> bool" where
  "contains sub [] = (sub = [])"
| "contains sub (c # cs) = (prefix sub (c # cs) \<or> contains sub cs)"

text \<open>\<^verbatim>\<open>str(n)\<close> for a natural number.\<close>

fun str_nat :: "nat \<Rightarrow> string" where
  "str_nat n =
     (if n < 10 then [char_of (48 + n)] else str_nat (n div 10) @ [char_of (48 + n mod 10)])"

subsection \<open>Operations on parsed bodies\<close>

text \<open>Truth value of an object, as \<^verbatim>\<open>if x:\<close> takes it.\<close>

fun py_truthy :: "json \<Rightarrow> bool" where
  "py_truthy JNull = False"
| "py_truthy (JBool b) = b"
| "py_truthy (JInt i) = (i \<noteq> 0)"
| "py_truthy (JFloat r) = (r \<noteq> 0)"
| "py_truthy (JStr s) = (s \<noteq> [])"
| "py_truthy (JArr xs) = (xs \<noteq> [])"
| "py_truthy (JObj kvs) = (kvs \<noteq> [])"

text \<open>\<^verbatim>\<open>len(x)\<close>\<close>

fun py_len :: "json \<Rightarrow> exn + nat" where
  "py_len (JStr s) = Inr (length s)"
| "py_len (JArr xs) = Inr (length xs)"
| "py_len (JObj kvs) = Inr (length kvs)"
| "py_len v = Inl (Exn TypeError ''object has no len()'')"

text \<open>
  \<^verbatim>\<open>x[1]\<close>. A dictionary parsed from a body has string keys only, so the integer key is
  missing.
\<close>

fun py_index1 :: "json \<Rightarrow> exn + json" where
  "py_index1 (JArr xs) =
     (if 1 < length xs then Inr (xs ! 1) else Inl (Exn IndexError ''list index out of range''))"
| "py_index1 (JStr s) =
     (if 1 < length s then Inr (JStr [s ! 1])
      else Inl (Exn IndexError ''string index out of range''))"
| "py_index1 (JObj kvs) = Inl (Exn KeyError ''1'')"
| "py_index1 v = Inl (Exn TypeError ''object is not subscriptable'')"

text \<open>\<^verbatim>\<open>x[:n]\<close>\<close>

fun py_slice_to :: "nat \<Rightarrow> json \<Rightarrow> exn + json" where
  "py_slice_to n (JArr xs) = Inr (JArr (take n xs))"
| "py_slice_to n (JStr s) = Inr (JStr (take n s))"
| "py_slice_to n (JObj kvs) = Inl (Exn KeyError ''slice(None, n, None)'')"
| "py_slice_to n v = Inl (Exn TypeError ''object is not subscriptable'')"

text \<open>
  The items a \<^verbatim>\<open>for\<close> loop draws from \<open>x\<close>: the elements of a list, the characters of
  a string, the keys of a dictionary.
\<close>

fun py_iter :: "json \<Rightarrow> exn + json list" where
  "py_iter (JArr xs) = Inr xs"
| "py_iter (JStr s) = Inr (map (\<lambda>c. JStr [c]) s)"
| "py_iter (JObj kvs) = Inr (map (\<lambda>kv. JStr (fst kv)) kvs)"
| "py_iter v = Inl (Exn TypeError ''object is not iterable'')"

text \<open>\<^verbatim>\<open>x[key]\<close> with a string key.\<close>

fun py_subscript :: "json \<Rightarrow> string \<Rightarrow> exn + json" where
  "py_subscript (JObj kvs) key =
     (case map_of kvs key of None \<Rightarrow> Inl (Exn KeyError key) | Some v \<Rightarrow> Inr v)"
| "py_subscript (JArr xs) key = Inl (Exn TypeError ''list indices must be integers'')"
| "py_subscript (JStr s) key = Inl (Exn TypeError ''string indices must be integers'')"
| "py_subscript v key = Inl (Exn TypeError ''object is not subscriptable'')"

text \<open>\<^verbatim>\<open>x.get(key, default)\<close>; \<^verbatim>\<open>x.get(key)\<close> has the default \<^verbatim>\<open>None\<close>.\<close>

fun py_get_default :: "json \<Rightarrow> string \<Rightarrow> json \<Rightarrow> exn + json" where
  "py_get_default (JObj kvs) key d =
     (case map_of kvs key of None \<Rightarrow> Inr d | Some v \<Rightarrow> Inr v)"
| "py_get_default v key d = Inl (Exn AttributeError ''object has no attribute get'')"

definition py_get :: "json \<Rightarrow> string \<Rightarrow> exn + json" where
  "py_get x key = py_get_default x key JNull"

section \<open>The outside world\<close>

text \<open>
  Every collector talks to the network through \<^verbatim>\<open>self.session.get(url, params=...,
  timeout=...)\<close>. A request is what the call passes. A response carries what the code
  reads from it: the status, the outcome of \<^verbatim>\<open>response.json()\<close>, and the outcome of the
  library calls made on \<^verbatim>\<open>response.text\<close> (BeautifulSoup's \<^verbatim>\<open>find_all\<close> followed by
  \<^verbatim>\<open>get_text(strip=True)\<close> on each element, and \<^verbatim>\<open>trafilatura.extract\<close>), each of which
  either raises or returns.

  The network answers a request depending on all requests made before it; the list of
  requests made so far is the state that every collector threads through.
\<close>

record request =
  url :: string
  params :: "(string \<times> json) list"
  timeout :: nat

record response =
  status_code :: int
  http_error_text :: string
  json_result :: "exn + json"
  stat_texts :: "exn + string list"
  cell_texts :: "exn + string list"
  extract_result :: "exn + string option"

type_synonym network = "request list \<Rightarrow> request \<Rightarrow> exn + response"

definition session_get ::
  "network \<Rightarrow> request \<Rightarrow> request list \<Rightarrow> (exn + response) \<times> request list" where
  "session_get net req hist = (net hist req, hist @ [req])"

text \<open>\<^verbatim>\<open>response.raise_for_status()\<close>\<close>

definition raise_for_status :: "response \<Rightarrow> exn + unit" where
  "raise_for_status r =
     (if 400 \<le> status_code r \<and> status_code r < 600
      then Inl (Exn HTTPError (http_error_text r)) else Inr ())"

text \<open>
  The envelope every \<^verbatim>\<open>collect_data\<close> returns: \<^verbatim>\<open>{'success': True, 'data': ...,
  'metadata': ...}\<close> or \<^verbatim>\<open>{'success': False, 'error': ...}\<close>.
\<close>

datatype collection_result =
    Success (result_data: "json list") (result_metadata: "(string \<times> json) list")
  | Failure (result_error: string)

fun success :: "collection_result \<Rightarrow> bool" where
  "success (Success d m) = True"
| "success (Failure msg) = False"

text \<open>
  A strategy returns \<^verbatim>\<open>None\<close> or a list of records; \<^verbatim>\<open>if api_data:\<close> holds for a
  non-empty list only.
\<close>

fun truthy_records :: "json list option \<Rightarrow> bool" where
  "truthy_records None = False"
| "truthy_records (Some rs) = (rs \<noteq> [])"

section \<open>robust\_collectors.py\<close>

subsection \<open>WorldBankCollector: the Fetch strategy\<close>

text \<open>The dictionary \<^verbatim>\<open>indicators\<close> of \<^verbatim>\<open>_try_world_bank_api\<close>.\<close>

definition robust_indicators :: "(string \<times> string) list" where
  "robust_indicators =
     [(''population'', ''SP.POP.TOTL''),
      (''health'', ''SP.DYN.LE00.IN''),
      (''education'', ''SE.ADT.LITR.ZS''),
      (''economy'', ''NY.GDP.MKTP.CD''),
      (''agriculture'', ''AG.LND.AGRI.ZS''),
      (''mining'', ''NY.GDP.MINR.RT.ZS'')]"

definition robust_api_request :: "string \<Rightarrow> request" where
  "robust_api_request indicator =
     \<lparr>url = ''https://api.worldbank.org/v2/country/ZMB/indicator/'' @ indicator,
      params = [(''format'', JStr ''json''), (''date'', JStr ''2022:2025''),
                (''per_page'', JInt 20)],
      timeout = 5\<rparr>"

text \<open>The record built for one observation.\<close>

definition robust_api_record :: "json \<Rightarrow> exn + json" where
  "robust_api_record item =
     py_bind (py_subscript item ''indicator'') (\<lambda>ind.
     py_bind (py_subscript ind ''value'') (\<lambda>name.
     py_bind (py_subscript item ''date'') (\<lambda>date.
     py_bind (py_subscript item ''value'') (\<lambda>v.
       Inr (JObj [(''Indicator'', name), (''Year'', date), (''Value'', v),
                  (''Country'', JStr ''Zambia''), (''Source'', JStr ''World Bank API'')])))))"

text \<open>
  The loop \<^verbatim>\<open>for item in data[1][:5]: if item.get('value'): results.append(...)\<close>; an
  exception leaves the loop at once.
\<close>

fun robust_api_results :: "json list \<Rightarrow> json list \<Rightarrow> exn + json list" where
  "robust_api_results [] results = Inr results"
| "robust_api_results (item # items) results =
     (case py_get item ''value'' of
        Inl e \<Rightarrow> Inl e
      | Inr v \<Rightarrow>
          if py_truthy v then
            (case robust_api_record item of
               Inl e \<Rightarrow> Inl e
             | Inr r \<Rightarrow> robust_api_results items (results @ [r]))
          else robust_api_results items results)"

text \<open>What the strategy makes of a parsed body \<^verbatim>\<open>data\<close>.\<close>

definition robust_api_parse :: "json \<Rightarrow> exn + json list option" where
  "robust_api_parse data =
     py_bind (py_len data) (\<lambda>n.
       if 1 < n then
         py_bind (py_index1 data) (\<lambda>d1.
           if py_truthy d1 then
             py_bind (py_slice_to 5 d1) (\<lambda>sl.
             py_bind (py_iter sl) (\<lambda>items.
             py_bind (robust_api_results items []) (\<lambda>results.
               Inr (if results \<noteq> [] then Some results else None))))
           else Inr None)
       else Inr None)"

text \<open>The body of \<^verbatim>\<open>_try_world_bank_api\<close> inside its \<^verbatim>\<open>try\<close>.\<close>

definition try_world_bank_api_body ::
  "network \<Rightarrow> string \<Rightarrow> request list \<Rightarrow> (exn + json list option) \<times> request list" where
  "try_world_bank_api_body net data_type hist =
     (case map_of robust_indicators (lower data_type) of
        None \<Rightarrow> (Inr None, hist)
      | Some indicator \<Rightarrow>
          if indicator = [] then (Inr None, hist)
          else
            (case session_get net (robust_api_request indicator) hist of
               (Inl e, hist') \<Rightarrow> (Inl e, hist')
             | (Inr response, hist') \<Rightarrow>
                 if status_code response = 200 then
                   (py_bind (json_result response) robust_api_parse, hist')
                 else (Inr None, hist')))"

text \<open>\<^verbatim>\<open>except Exception as e: logging.warning(...); return None\<close>\<close>

definition try_world_bank_api ::
  "network \<Rightarrow> string \<Rightarrow> request list \<Rightarrow> (exn + json list option) \<times> request list" where
  "try_world_bank_api net data_type hist =
     (case try_world_bank_api_body net data_type hist of
        (Inl e, hist') \<Rightarrow> (Inr None, hist')
      | (Inr r, hist') \<Rightarrow> (Inr r, hist'))"

subsection \<open>WorldBankCollector: the Scrape strategy\<close>

definition robust_scrape_request :: request where
  "robust_scrape_request =
     \<lparr>url = ''https://www.worldbank.org/en/country/zambia'', params = [], timeout = 8\<rparr>"

definition robust_scrape_keywords :: "string list" where
  "robust_scrape_keywords = [''million'', ''billion'', ''%'', ''gdp'', ''population'']"

definition robust_scrape_record :: "string \<Rightarrow> string \<Rightarrow> string \<Rightarrow> json" where
  "robust_scrape_record today data_type text_of =
     JObj [(''Indicator'', JStr (''Zambia '' @ title data_type @ '' Data'')),
           (''Value'', JStr text_of),
           (''Source'', JStr ''World Bank Website''),
           (''Country'', JStr ''Zambia''),
           (''Date'', JStr today)]"

text \<open>
  The loop over the elements found on the page, given by their stripped texts.
  \<^verbatim>\<open>re.search(r'\d+', text)\<close> holds when the text has a digit; \<open>today\<close> is
  \<^verbatim>\<open>datetime.now().strftime('%Y-%m-%d')\<close>.
\<close>

fun robust_scrape_elements ::
  "string \<Rightarrow> string \<Rightarrow> string list \<Rightarrow> json list \<Rightarrow> json list" where
  "robust_scrape_elements today data_type [] results = results"
| "robust_scrape_elements today data_type (t # ts) results =
     (if list_ex is_digit t \<and> length t < 200 \<and>
         list_ex (\<lambda>keyword. contains keyword (lower t)) robust_scrape_keywords
      then
        (let results' = results @ [robust_scrape_record today data_type t]
         in if 5 \<le> length results' then results'
            else robust_scrape_elements today data_type ts results')
      else robust_scrape_elements today data_type ts results)"

text \<open>
  The body of \<^verbatim>\<open>_scrape_world_bank_page\<close> inside its \<^verbatim>\<open>try\<close>; with a status other
  than 200 the function falls off its end and returns \<^verbatim>\<open>None\<close>.
\<close>

definition scrape_world_bank_page_body ::
  "string \<Rightarrow> network \<Rightarrow> string \<Rightarrow> request list
     \<Rightarrow> (exn + json list option) \<times> request list" where
  "scrape_world_bank_page_body today net data_type hist =
     (case session_get net robust_scrape_request hist of
        (Inl e, hist') \<Rightarrow> (Inl e, hist')
      | (Inr response, hist') \<Rightarrow>
          if status_code response = 200 then
            (py_bind (stat_texts response) (\<lambda>texts.
               let results = robust_scrape_elements today data_type texts []
               in Inr (if results \<noteq> [] then Some results else None)), hist')
          else (Inr None, hist'))"

definition scrape_world_bank_page ::
  "string \<Rightarrow> network \<Rightarrow> string \<Rightarrow> request list
     \<Rightarrow> (exn + json list option) \<times> request list" where
  "scrape_world_bank_page today net data_type hist =
     (case scrape_world_bank_page_body today net data_type hist of
        (Inl e, hist') \<Rightarrow> (Inr None, hist')
      | (Inr r, hist') \<Rightarrow> (Inr r, hist'))"

subsection \<open>WorldBankCollector: the Reference Table\<close>

text \<open>
  The dictionary \<^verbatim>\<open>base_data\<close>; an item \<^verbatim>\<open>{'Indicator': i, 'Value': v, 'Unit': u}\<close> is the
  triple \<open>(i, v, u)\<close>. Every item has its unit, so \<^verbatim>\<open>item.get('Unit', '')\<close> never takes
  the default. The superscript two of \<^verbatim>\<open>km\<close> is the character 0xB2.
\<close>

definition base_data :: "(string \<times> (string \<times> string \<times> string) list) list" where
  "base_data =
     [(''population'',
        [(''Total Population'', ''20.22 million (2025 est.)'', ''people''),
         (''Population Growth Rate'', ''2.8% annual'', ''percent''),
         (''Urban Population'', ''46.8%'', ''percent''),
         (''Population Density'', ''27 people/km'' @ [CHR 0xB2], ''density'')]),
      (''health'',
        [(''Life Expectancy'', ''64.3 years (2025)'', ''years''),
         (''Infant Mortality Rate'', ''36.2 per 1,000'', ''per 1000 births''),
         (''Maternal Mortality'', ''198 per 100,000'', ''per 100k births''),
         (''HIV Prevalence'', ''10.8%'', ''percent'')]),
      (''education'',
        [(''Literacy Rate'', ''87.3%'', ''percent''),
         (''Primary School Enrollment'', ''91.2%'', ''percent''),
         (''Secondary School Enrollment'', ''47.8%'', ''percent''),
         (''Tertiary Enrollment'', ''5.4%'', ''percent'')]),
      (''economy'',
        [(''GDP (nominal)'', ''$31.2 billion (2025)'', ''USD billion''),
         (''GDP per capita'', ''$1,544'', ''USD''),
         (''GDP Growth Rate'', ''5.2%'', ''percent''),
         (''Inflation Rate'', ''7.8%'', ''percent'')]),
      (''agriculture'',
        [(''Agricultural Land'', ''58.1%'', ''percent of total''),
         (''Arable Land'', ''4.8%'', ''percent of total''),
         (''Agricultural Employment'', ''54.8%'', ''percent of workforce''),
         (''Crop Production Index'', ''105.2'', ''index'')]),
      (''mining'',
        [(''Copper Production'', ''763,287 tonnes (2022)'', ''tonnes''),
         (''Mining GDP Share'', ''12.1%'', ''percent''),
         (''Mineral Exports'', ''$6.8 billion'', ''USD''),
         (''Mining Employment'', ''89,000 jobs'', ''jobs'')])]"

definition fallback_record :: "string \<times> string \<times> string \<Rightarrow> json" where
  "fallback_record item =
     (case item of (i, v, u) \<Rightarrow>
        JObj [(''Indicator'', JStr i), (''Value'', JStr v), (''Unit'', JStr u),
              (''Country'', JStr ''Zambia''),
              (''Source'', JStr ''World Bank Reference Data''),
              (''Date'', JStr ''2025 (Current)''),
              (''Note'', JStr ''Current estimates - verify with official World Bank data'')])"

text \<open>\<^verbatim>\<open>_get_fallback_data\<close>: \<^verbatim>\<open>base_data.get(data_type.lower(), [])\<close>, then one record per item.\<close>

definition get_fallback_data :: "string \<Rightarrow> json list" where
  "get_fallback_data data_type =
     map fallback_record
       (case map_of base_data (lower data_type) of None \<Rightarrow> [] | Some data_list \<Rightarrow> data_list)"

subsection \<open>WorldBankCollector.collect\_data\<close>

definition robust_metadata :: "string \<Rightarrow> (string \<times> json) list" where
  "robust_metadata source = [(''source'', JStr source), (''country'', JStr ''Zambia'')]"

text \<open>The statements inside the \<^verbatim>\<open>try\<close> of \<^verbatim>\<open>collect_data\<close>.\<close>

definition robust_collect_data_body ::
  "string \<Rightarrow> network \<Rightarrow> string \<Rightarrow> request list
     \<Rightarrow> (exn + collection_result) \<times> request list" where
  "robust_collect_data_body today net data_type hist =
     (case try_world_bank_api net data_type hist of
        (Inl e, hist1) \<Rightarrow> (Inl e, hist1)
      | (Inr api_data, hist1) \<Rightarrow>
          if truthy_records api_data then
            (Inr (Success (the api_data) (robust_metadata ''World Bank API'')), hist1)
          else
            (case scrape_world_bank_page today net data_type hist1 of
               (Inl e, hist2) \<Rightarrow> (Inl e, hist2)
             | (Inr scraped_data, hist2) \<Rightarrow>
                 if truthy_records scraped_data then
                   (Inr (Success (the scraped_data) (robust_metadata ''World Bank Website'')),
                    hist2)
                 else
                   (Inr (Success (get_fallback_data data_type)
                           (robust_metadata ''World Bank Reference Data'')), hist2)))"

text \<open>
  \<^verbatim>\<open>except Exception as e: return {'success': False, 'error': f'World Bank data
  collection failed: {str(e)}'}\<close>
\<close>

definition robust_collect_data ::
  "string \<Rightarrow> network \<Rightarrow> string \<Rightarrow> request list
     \<Rightarrow> (exn + collection_result) \<times> request list" where
  "robust_collect_data today net data_type hist =
     (case robust_collect_data_body today net data_type hist of
        (Inl e, hist') \<Rightarrow>
          (Inr (Failure (''World Bank data collection failed: '' @ str_exn e)), hist')
      | (Inr r, hist') \<Rightarrow> (Inr r, hist'))"

subsection \<open>IMFCollector\<close>

definition robust_imf_request :: request where
  "robust_imf_request =
     \<lparr>url = ''https://www.imf.org/en/Countries/ZMB'', params = [], timeout = 6\<rparr>"

text \<open>
  \<^verbatim>\<open>re.search(r'\d+\.?\d*%|\$\d+', text)\<close>. The first alternative matches somewhere
  exactly when a percent sign follows a digit, directly or after one dot; the second
  when a digit follows a dollar sign.
\<close>

definition imf_stat_like :: "string \<Rightarrow> bool" where
  "imf_stat_like t =
     list_ex (\<lambda>d. contains [d, CHR ''%''] t \<or> contains [d, CHR ''.'', CHR ''%''] t \<or>
                  contains [CHR ''$'', d] t) ''0123456789''"

definition robust_imf_keywords :: "string list" where
  "robust_imf_keywords = [''gdp'', ''inflation'', ''debt'', ''growth'']"

definition robust_imf_record :: "string \<Rightarrow> string \<Rightarrow> string \<Rightarrow> json" where
  "robust_imf_record today data_type text_of =
     JObj [(''Indicator'', JStr (''IMF '' @ title data_type @ '' Metric'')),
           (''Value'', JStr text_of),
           (''Source'', JStr ''IMF Website''),
           (''Country'', JStr ''Zambia''),
           (''Date'', JStr today)]"

fun robust_imf_elements ::
  "string \<Rightarrow> string \<Rightarrow> string list \<Rightarrow> json list \<Rightarrow> json list" where
  "robust_imf_elements today data_type [] results = results"
| "robust_imf_elements today data_type (t # ts) results =
     (if imf_stat_like t \<and>
         list_ex (\<lambda>keyword. contains keyword (lower t)) robust_imf_keywords
      then
        (let results' = results @ [robust_imf_record today data_type t]
         in if 3 \<le> length results' then results'
            else robust_imf_elements today data_type ts results')
      else robust_imf_elements today data_type ts results)"

definition scrape_imf_data_body ::
  "string \<Rightarrow> network \<Rightarrow> string \<Rightarrow> request list
     \<Rightarrow> (exn + json list option) \<times> request list" where
  "scrape_imf_data_body today net data_type hist =
     (case session_get net robust_imf_request hist of
        (Inl e, hist') \<Rightarrow> (Inl e, hist')
      | (Inr response, hist') \<Rightarrow>
          if status_code response = 200 then
            (py_bind (cell_texts response) (\<lambda>texts.
               let results = robust_imf_elements today data_type texts []
               in Inr (if results \<noteq> [] then Some results else None)), hist')
          else (Inr None, hist'))"

definition scrape_imf_data ::
  "string \<Rightarrow> network \<Rightarrow> string \<Rightarrow> request list
     \<Rightarrow> (exn + json list option) \<times> request list" where
  "scrape_imf_data today net data_type hist =
     (case scrape_imf_data_body today net data_type hist of
        (Inl e, hist') \<Rightarrow> (Inr None, hist')
      | (Inr r, hist') \<Rightarrow> (Inr r, hist'))"

text \<open>The dictionary \<^verbatim>\<open>imf_data\<close>, an item being \<open>(Indicator, Value, Type)\<close>.\<close>

definition imf_economy :: "(string \<times> string \<times> string) list" where
  "imf_economy =
     [(''IMF GDP Growth Forecast'', ''4.2% (2024)'', ''Economic Growth''),
      (''IMF Inflation Projection'', ''8.5% (2024)'', ''Monetary Policy''),
      (''Current Account Balance'', ''-3.2% of GDP'', ''External Balance''),
      (''Government Debt'', ''132.8% of GDP'', ''Fiscal Policy'')]"

definition imf_data :: "(string \<times> (string \<times> string \<times> string) list) list" where
  "imf_data =
     [(''economy'', imf_economy),
      (''population'',
        [(''IMF Population Estimate'', ''19.6 million'', ''Demographics''),
         (''Labor Force'', ''7.2 million'', ''Demographics''),
         (''Unemployment Rate'', ''12.9%'', ''Labor Market'')])]"

definition imf_fallback_record :: "string \<times> string \<times> string \<Rightarrow> json" where
  "imf_fallback_record item =
     (case item of (i, v, t) \<Rightarrow>
        JObj [(''Indicator'', JStr i), (''Value'', JStr v), (''Type'', JStr t),
              (''Country'', JStr ''Zambia''),
              (''Source'', JStr ''IMF Reference Data''),
              (''Date'', JStr ''2024 (IMF Estimates)''),
              (''Note'', JStr ''Based on IMF Article IV consultation and forecasts'')])"

text \<open>
  \<^verbatim>\<open>_get_imf_fallback_data\<close>: \<^verbatim>\<open>imf_data.get(data_type.lower(), imf_data['economy'])\<close>.
\<close>

definition get_imf_fallback_data :: "string \<Rightarrow> json list" where
  "get_imf_fallback_data data_type =
     map imf_fallback_record
       (case map_of imf_data (lower data_type) of
          None \<Rightarrow> imf_economy
        | Some data_list \<Rightarrow> data_list)"

definition robust_imf_collect_data_body ::
  "string \<Rightarrow> network \<Rightarrow> string \<Rightarrow> request list
     \<Rightarrow> (exn + collection_result) \<times> request list" where
  "robust_imf_collect_data_body today net data_type hist =
     (case scrape_imf_data today net data_type hist of
        (Inl e, hist1) \<Rightarrow> (Inl e, hist1)
      | (Inr scraped_data, hist1) \<Rightarrow>
          if truthy_records scraped_data then
            (Inr (Success (the scraped_data) (robust_metadata ''IMF'')), hist1)
          else
            (Inr (Success (get_imf_fallback_data data_type)
                    (robust_metadata ''IMF Reference Data'')), hist1))"

definition robust_imf_collect_data ::
  "string \<Rightarrow> network \<Rightarrow> string \<Rightarrow> request list
     \<Rightarrow> (exn + collection_result) \<times> request list" where
  "robust_imf_collect_data today net data_type hist =
     (case robust_imf_collect_data_body today net data_type hist of
        (Inl e, hist') \<Rightarrow>
          (Inr (Failure (''IMF data collection failed: '' @ str_exn e)), hist')
      | (Inr r, hist') \<Rightarrow> (Inr r, hist'))"

section \<open>data\_collectors.py\<close>

subsection \<open>WorldBankCollector\<close>

text \<open>\<^verbatim>\<open>_get_indicators_by_type\<close>: \<^verbatim>\<open>indicators_map.get(data_type.lower(), [])\<close>.\<close>

definition dc_indicators_map :: "(string \<times> string list) list" where
  "dc_indicators_map =
     [(''population'',
        [''SP.POP.TOTL'', ''SP.POP.GROW'', ''SP.URB.TOTL.IN.ZS'', ''SP.RUR.TOTL.ZS'']),
      (''health'', [''SP.DYN.LE00.IN'', ''SH.DYN.MORT'', ''SH.STA.MMRT'', ''SH.IMM.MEAS'']),
      (''education'', [''SE.ADT.LITR.ZS'', ''SE.PRM.NENR'', ''SE.SEC.NENR'', ''SE.TER.ENRR'']),
      (''economy'',
        [''NY.GDP.MKTP.CD'', ''NY.GDP.PCAP.CD'', ''NY.GDP.MKTP.KD.ZG'', ''FP.CPI.TOTL.ZG'']),
      (''agriculture'',
        [''AG.LND.AGRI.ZS'', ''AG.PRD.CROP.XD'', ''AG.LND.ARBL.ZS'', ''AG.YLD.CREL.KG'']),
      (''mining'', [''NY.GDP.MINR.RT.ZS'', ''TX.VAL.MRCH.CD.WT'', ''EG.USE.COMM.CL.ZS''])]"

definition dc_get_indicators_by_type :: "string \<Rightarrow> string list" where
  "dc_get_indicators_by_type data_type =
     (case map_of dc_indicators_map (lower data_type) of None \<Rightarrow> [] | Some l \<Rightarrow> l)"

definition dc_request :: "string \<Rightarrow> request" where
  "dc_request indicator =
     \<lparr>url = ''https://api.worldbank.org/v2'' @ ''/countries/'' @ ''ZMB'' @ ''/indicators/''
              @ indicator,
      params = [(''format'', JStr ''json''), (''date'', JStr ''2010:2024''),
                (''per_page'', JInt 100)],
      timeout = 30\<rparr>"

definition dc_record :: "json \<Rightarrow> exn + json" where
  "dc_record item =
     py_bind (py_subscript item ''indicator'') (\<lambda>ind.
     py_bind (py_subscript ind ''value'') (\<lambda>name.
     py_bind (py_subscript item ''indicator'') (\<lambda>ind2.
     py_bind (py_subscript ind2 ''id'') (\<lambda>code.
     py_bind (py_subscript item ''date'') (\<lambda>date.
     py_bind (py_subscript item ''value'') (\<lambda>v.
     py_bind (py_subscript item ''country'') (\<lambda>c.
     py_bind (py_subscript c ''value'') (\<lambda>country.
       Inr (JObj [(''Indicator'', name), (''Indicator_Code'', code), (''Year'', date),
                  (''Value'', v), (''Country'', country),
                  (''Source'', JStr ''World Bank'')])))))))))"

text \<open>
  \<^verbatim>\<open>for item in data[1]: if item['value'] is not None: all_data.append(...)\<close>. The list
  \<^verbatim>\<open>all_data\<close> is changed in place, so the records appended before an exception stay;
  the result is the exception raised, if any, and the list as it then stands.
\<close>

fun dc_observations :: "json list \<Rightarrow> json list \<Rightarrow> exn option \<times> json list" where
  "dc_observations [] all_data = (None, all_data)"
| "dc_observations (item # items) all_data =
     (case py_subscript item ''value'' of
        Inl e \<Rightarrow> (Some e, all_data)
      | Inr v \<Rightarrow>
          if v \<noteq> JNull then
            (case dc_record item of
               Inl e \<Rightarrow> (Some e, all_data)
             | Inr r \<Rightarrow> dc_observations items (all_data @ [r]))
          else dc_observations items all_data)"

text \<open>What the loop body does with a parsed body \<^verbatim>\<open>data\<close>.\<close>

definition dc_parse :: "json \<Rightarrow> json list \<Rightarrow> exn option \<times> json list" where
  "dc_parse data all_data =
     (case py_len data of
        Inl e \<Rightarrow> (Some e, all_data)
      | Inr n \<Rightarrow>
          if 1 < n then
            (case py_index1 data of
               Inl e \<Rightarrow> (Some e, all_data)
             | Inr d1 \<Rightarrow>
                 if py_truthy d1 then
                   (case py_iter d1 of
                      Inl e \<Rightarrow> (Some e, all_data)
                    | Inr items \<Rightarrow> dc_observations items all_data)
                 else (None, all_data))
          else (None, all_data))"

text \<open>The statements of the inner \<^verbatim>\<open>try\<close>, from the answer of the network on.\<close>

definition dc_indicator_outcome ::
  "exn + response \<Rightarrow> json list \<Rightarrow> exn option \<times> json list" where
  "dc_indicator_outcome answer all_data =
     (case answer of
        Inl e \<Rightarrow> (Some e, all_data)
      | Inr response \<Rightarrow>
          (case raise_for_status response of
             Inl e \<Rightarrow> (Some e, all_data)
           | Inr u \<Rightarrow>
               (case json_result response of
                  Inl e \<Rightarrow> (Some e, all_data)
                | Inr data \<Rightarrow> dc_parse data all_data)))"

text \<open>
  One round of \<^verbatim>\<open>for indicator in indicators\<close>, with its
  \<^verbatim>\<open>except Exception as e: logging.warning(...); continue\<close>.
\<close>

definition dc_fetch_indicator ::
  "network \<Rightarrow> string \<Rightarrow> json list \<times> request list \<Rightarrow> json list \<times> request list" where
  "dc_fetch_indicator net indicator st =
     (case st of (all_data, hist) \<Rightarrow>
        (case session_get net (dc_request indicator) hist of
           (answer, hist') \<Rightarrow> (snd (dc_indicator_outcome answer all_data), hist')))"

fun dc_fetch_all ::
  "network \<Rightarrow> string list \<Rightarrow> json list \<times> request list \<Rightarrow> json list \<times> request list" where
  "dc_fetch_all net [] st = st"
| "dc_fetch_all net (indicator # indicators) st =
     dc_fetch_all net indicators (dc_fetch_indicator net indicator st)"

definition dc_collect_data_body ::
  "network \<Rightarrow> string \<Rightarrow> request list \<Rightarrow> (exn + collection_result) \<times> request list" where
  "dc_collect_data_body net data_type hist =
     (let indicators = dc_get_indicators_by_type data_type in
      if indicators = [] then
        (Inr (Failure (''No World Bank indicators found for data type: '' @ data_type)), hist)
      else
        (case dc_fetch_all net indicators ([], hist) of
           (all_data, hist') \<Rightarrow>
             if all_data = [] then
               (Inr (Failure ''No data retrieved from World Bank API''), hist')
             else
               (Inr (Success all_data
                       [(''source'', JStr ''World Bank''), (''country'', JStr ''Zambia''),
                        (''indicators_count'', JInt (int (length indicators))),
                        (''records_count'', JInt (int (length all_data)))]), hist')))"

definition dc_collect_data ::
  "network \<Rightarrow> string \<Rightarrow> request list \<Rightarrow> (exn + collection_result) \<times> request list" where
  "dc_collect_data net data_type hist =
     (case dc_collect_data_body net data_type hist of
        (Inl e, hist') \<Rightarrow> (Inr (Failure (''World Bank API error: '' @ str_exn e)), hist')
      | (Inr r, hist') \<Rightarrow> (Inr r, hist'))"

subsection \<open>IMFCollector\<close>

text \<open>
  The regular expressions of the free-text passes, by name; \<^verbatim>\<open>re.findall\<close> is the
  library's, and is a parameter of the functions that call it. Each expression has one
  group, so \<^verbatim>\<open>findall\<close> returns the list of the texts the group matched.
  \<^item> \<open>DC_GDP\<close>: \<^verbatim>\<open>r'GDP.*?(\d+\.?\d*)\s*(?:percent|%|billion|million)'\<close>, ignoring case
  \<^item> \<open>DC_Inflation\<close>: \<^verbatim>\<open>r'inflation.*?(\d+\.?\d*)\s*(?:percent|%)'\<close>, ignoring case
  \<^item> \<open>DC_Numeric\<close>: \<^verbatim>\<open>r'(\d+\.?\d*)\s*(?:percent|%|billion|million|USD|\$)'\<close>
  \<^item> \<open>W_GDP\<close>: \<^verbatim>\<open>r'GDP.*?(\d+\.?\d*)\s*(?:billion|million|%)'\<close>, ignoring case
  \<^item> \<open>W_Inflation\<close>: \<^verbatim>\<open>r'inflation.*?(\d+\.?\d*)\s*(?:percent|%)'\<close>, ignoring case
  \<^item> \<open>W_Growth\<close>: \<^verbatim>\<open>r'growth.*?(\d+\.?\d*)\s*(?:percent|%)'\<close>, ignoring case
  \<^item> \<open>W_Debt\<close>: \<^verbatim>\<open>r'debt.*?(\d+\.?\d*)\s*(?:percent|%|billion)'\<close>, ignoring case
\<close>

datatype regex = DC_GDP | DC_Inflation | DC_Numeric | W_GDP | W_Inflation | W_Growth | W_Debt

type_synonym findall = "regex \<Rightarrow> string \<Rightarrow> string list"

text \<open>\<^verbatim>\<open>enumerate(xs)\<close>\<close>

definition enumerate_from0 :: "'a list \<Rightarrow> (nat \<times> 'a) list" where
  "enumerate_from0 xs = zip [0..<length xs] xs"

definition dc_imf_record :: "string \<Rightarrow> string \<Rightarrow> string \<Rightarrow> nat \<times> string \<Rightarrow> json" where
  "dc_imf_record today label type_of im =
     (case im of (i, m) \<Rightarrow>
        JObj [(''Indicator'', JStr (label @ str_nat (i + 1))),
              (''Value'', JStr m),
              (''Type'', JStr type_of),
              (''Source'', JStr ''IMF Website''),
              (''Date'', JStr today)])"

text \<open>
  The records one pattern contributes:
  \<^verbatim>\<open>for i, m in enumerate(matches[:limit]): data.append(...)\<close>.
\<close>

definition dc_pattern_records ::
  "string \<Rightarrow> string \<Rightarrow> string \<Rightarrow> nat \<Rightarrow> string list \<Rightarrow> json list" where
  "dc_pattern_records today label type_of limit matches =
     map (dc_imf_record today label type_of) (enumerate_from0 (take limit matches))"

definition parse_imf_content :: "findall \<Rightarrow> string \<Rightarrow> string \<Rightarrow> string \<Rightarrow> json list" where
  "parse_imf_content re_findall today content data_type =
     (if lower data_type = ''economy'' then
        (let gdp_matches = re_findall DC_GDP content;
             inflation_matches = re_findall DC_Inflation content
         in dc_pattern_records today ''GDP Related Metric '' ''Economic'' 3 gdp_matches
          @ dc_pattern_records today ''Inflation Related Metric '' ''Economic'' 3
              inflation_matches)
      else
        (let numeric_matches = re_findall DC_Numeric content
         in dc_pattern_records today (title data_type @ '' Metric '') (title data_type) 10
              numeric_matches))"

definition dc_imf_request :: request where
  "dc_imf_request =
     \<lparr>url = ''https://www.imf.org/en/Countries/ZMB'', params = [], timeout = 30\<rparr>"

definition dc_imf_collect_data_body ::
  "findall \<Rightarrow> string \<Rightarrow> network \<Rightarrow> string \<Rightarrow> request list
     \<Rightarrow> (exn + collection_result) \<times> request list" where
  "dc_imf_collect_data_body re_findall today net data_type hist =
     (case session_get net dc_imf_request hist of
        (Inl e, hist') \<Rightarrow> (Inl e, hist')
      | (Inr response, hist') \<Rightarrow>
          (py_bind (raise_for_status response) (\<lambda>u.
           py_bind (extract_result response) (\<lambda>content.
             if content = None \<or> content = Some [] then
               Inr (Failure ''Failed to extract content from IMF website'')
             else
               (let data = parse_imf_content re_findall today (the content) data_type in
                if data = [] then
                  Inr (Failure (''No relevant '' @ data_type @ '' data found on IMF website''))
                else
                  Inr (Success data
                         [(''source'', JStr ''IMF''), (''url'', JStr (url dc_imf_request)),
                          (''data_type'', JStr data_type)])))), hist'))"

definition dc_imf_collect_data ::
  "findall \<Rightarrow> string \<Rightarrow> network \<Rightarrow> string \<Rightarrow> request list
     \<Rightarrow> (exn + collection_result) \<times> request list" where
  "dc_imf_collect_data re_findall today net data_type hist =
     (case dc_imf_collect_data_body re_findall today net data_type hist of
        (Inl e, hist') \<Rightarrow>
          (Inr (Failure (''IMF website scraping failed: '' @ str_exn e)), hist')
      | (Inr r, hist') \<Rightarrow> (Inr r, hist'))"

section \<open>enhanced\_collectors.py\<close>

text \<open>
  \<^verbatim>\<open>_get_2025_indicators\<close>: \<^verbatim>\<open>indicators.get(data_type.lower(), indicators['economy'])\<close>;
  a dictionary from indicator code to display name is the list of its items.
\<close>

definition enh_economy :: "(string \<times> string) list" where
  "enh_economy =
     [(''NY.GDP.MKTP.CD'', ''GDP (current US$)''),
      (''NY.GDP.PCAP.CD'', ''GDP per capita (current US$)''),
      (''NY.GDP.MKTP.KD.ZG'', ''GDP growth (annual %)''),
      (''FP.CPI.TOTL.ZG'', ''Inflation, consumer prices (annual %)''),
      (''SL.UEM.TOTL.ZS'', ''Unemployment, total (% of total labor force)'')]"

definition enh_indicators :: "(string \<times> (string \<times> string) list) list" where
  "enh_indicators =
     [(''population'',
        [(''SP.POP.TOTL'', ''Population, total''),
         (''SP.POP.GROW'', ''Population growth (annual %)''),
         (''SP.URB.TOTL.IN.ZS'', ''Urban population (% of total)''),
         (''SP.RUR.TOTL.ZS'', ''Rural population (% of total)''),
         (''SP.POP.DPND'', ''Age dependency ratio (% of working-age population)'')]),
      (''health'',
        [(''SP.DYN.LE00.IN'', ''Life expectancy at birth, total (years)''),
         (''SH.DYN.MORT'', ''Mortality rate, under-5 (per 1,000 live births)''),
         (''SH.STA.MMRT'', ''Maternal mortality ratio''),
         (''SH.IMM.MEAS'', ''Immunization, measles (% of children ages 12-23 months)''),
         (''SH.STA.MALN.ZS'',
          ''Prevalence of stunting, height for age (% of children under 5)'')]),
      (''education'',
        [(''SE.ADT.LITR.ZS'', ''Literacy rate, adult total (% of people ages 15 and above)''),
         (''SE.PRM.NENR'', ''School enrollment, primary (% net)''),
         (''SE.SEC.NENR'', ''School enrollment, secondary (% net)''),
         (''SE.TER.ENRR'', ''School enrollment, tertiary (% gross)''),
         (''SE.PRM.CMPT.ZS'', ''Primary completion rate, total (% of relevant age group)'')]),
      (''economy'', enh_economy),
      (''agriculture'',
        [(''AG.LND.AGRI.ZS'', ''Agricultural land (% of land area)''),
         (''AG.PRD.CROP.XD'', ''Crop production index (2014-2016 = 100)''),
         (''AG.LND.ARBL.ZS'', ''Arable land (% of land area)''),
         (''AG.YLD.CREL.KG'', ''Cereal yield (kg per hectare)''),
         (''AG.CON.FERT.ZS'',
          ''Fertilizer consumption (kilograms per hectare of arable land)'')]),
      (''mining'',
        [(''NY.GDP.MINR.RT.ZS'', ''Mineral rents (% of GDP)''),
         (''TX.VAL.MRCH.CD.WT'', ''Merchandise exports (current US$)''),
         (''TM.VAL.MRCH.CD.WT'', ''Merchandise imports (current US$)''),
         (''NE.EXP.GNFS.ZS'', ''Exports of goods and services (% of GDP)'')])]"

definition get_2025_indicators :: "string \<Rightarrow> (string \<times> string) list" where
  "get_2025_indicators data_type =
     (case map_of enh_indicators (lower data_type) of None \<Rightarrow> enh_economy | Some d \<Rightarrow> d)"

definition enh_request :: "string \<Rightarrow> request" where
  "enh_request indicator_code =
     \<lparr>url = ''https://api.worldbank.org/v2/country/ZMB/indicator/'' @ indicator_code,
      params = [(''format'', JStr ''json''), (''date'', JStr ''2024:2025''),
                (''per_page'', JInt 10)],
      timeout = 8\<rparr>"

definition enh_alt_request :: "string \<Rightarrow> request" where
  "enh_alt_request indicator_code =
     \<lparr>url = ''https://api.worldbank.org/v2/countries/ZMB/indicators/'' @ indicator_code,
      params = [(''format'', JStr ''json''), (''date'', JStr ''2025''),
                (''per_page'', JInt 5)],
      timeout = 5\<rparr>"

definition enh_record :: "string \<Rightarrow> string \<Rightarrow> json \<Rightarrow> exn + json" where
  "enh_record label source item =
     py_bind (py_subscript item ''date'') (\<lambda>date.
     py_bind (py_subscript item ''value'') (\<lambda>v.
       Inr (JObj [(''Indicator'', JStr label), (''Year'', date), (''Value'', v),
                  (''Country'', JStr ''Zambia''), (''Source'', JStr source)])))"

text \<open>
  \<^verbatim>\<open>for item in data[1]: if item.get('value'): all_data.append(...)\<close>, on the list
  \<^verbatim>\<open>all_data\<close> that is changed in place.
\<close>

fun enh_observations ::
  "string \<Rightarrow> string \<Rightarrow> json list \<Rightarrow> json list \<Rightarrow> exn option \<times> json list" where
  "enh_observations label source [] all_data = (None, all_data)"
| "enh_observations label source (item # items) all_data =
     (case py_get item ''value'' of
        Inl e \<Rightarrow> (Some e, all_data)
      | Inr v \<Rightarrow>
          if py_truthy v then
            (case enh_record label source item of
               Inl e \<Rightarrow> (Some e, all_data)
             | Inr r \<Rightarrow> enh_observations label source items (all_data @ [r]))
          else enh_observations label source items all_data)"

definition enh_parse ::
  "string \<Rightarrow> string \<Rightarrow> json \<Rightarrow> json list \<Rightarrow> exn option \<times> json list" where
  "enh_parse label source data all_data =
     (case py_len data of
        Inl e \<Rightarrow> (Some e, all_data)
      | Inr n \<Rightarrow>
          if 1 < n then
            (case py_index1 data of
               Inl e \<Rightarrow> (Some e, all_data)
             | Inr d1 \<Rightarrow>
                 if py_truthy d1 then
                   (case py_iter d1 of
                      Inl e \<Rightarrow> (Some e, all_data)
                    | Inr items \<Rightarrow> enh_observations label source items all_data)
                 else (None, all_data))
          else (None, all_data))"

text \<open>One of the two requests of a round, from the answer of the network on.\<close>

definition enh_endpoint_outcome ::
  "string \<Rightarrow> string \<Rightarrow> exn + response \<Rightarrow> json list \<Rightarrow> exn option \<times> json list" where
  "enh_endpoint_outcome label source answer all_data =
     (case answer of
        Inl e \<Rightarrow> (Some e, all_data)
      | Inr response \<Rightarrow>
          if status_code response = 200 then
            (case json_result response of
               Inl e \<Rightarrow> (Some e, all_data)
             | Inr data \<Rightarrow> enh_parse label source data all_data)
          else (None, all_data))"

text \<open>
  One round of \<^verbatim>\<open>for indicator_code, indicator_name in indicators.items()\<close>: the primary
  endpoint, then the alternative one unless an exception has ended the round.
\<close>

definition enh_fetch_indicator ::
  "network \<Rightarrow> string \<times> string \<Rightarrow> json list \<times> request list
     \<Rightarrow> json list \<times> request list" where
  "enh_fetch_indicator net indicator st =
     (case indicator of (indicator_code, indicator_name) \<Rightarrow>
      case st of (all_data, hist) \<Rightarrow>
        (case session_get net (enh_request indicator_code) hist of
           (answer, hist1) \<Rightarrow>
             (case enh_endpoint_outcome indicator_name ''World Bank API'' answer all_data of
                (Some e, all_data1) \<Rightarrow> (all_data1, hist1)
              | (None, all_data1) \<Rightarrow>
                  (case session_get net (enh_alt_request indicator_code) hist1 of
                     (alt_answer, hist2) \<Rightarrow>
                       (snd (enh_endpoint_outcome (indicator_name @ '' (Latest)'')
                               ''World Bank API v2'' alt_answer all_data1), hist2)))))"

fun enh_fetch_all ::
  "network \<Rightarrow> (string \<times> string) list \<Rightarrow> json list \<times> request list
     \<Rightarrow> json list \<times> request list" where
  "enh_fetch_all net [] st = st"
| "enh_fetch_all net (indicator # indicators) st =
     enh_fetch_all net indicators (enh_fetch_indicator net indicator st)"

text \<open>\<^verbatim>\<open>_fetch_from_multiple_apis\<close>\<close>

definition fetch_from_multiple_apis ::
  "network \<Rightarrow> string \<Rightarrow> request list \<Rightarrow> json list option \<times> request list" where
  "fetch_from_multiple_apis net data_type hist =
     (case enh_fetch_all net (get_2025_indicators data_type) ([], hist) of
        (all_data, hist') \<Rightarrow> (if all_data \<noteq> [] then Some all_data else None, hist'))"

section \<open>working\_collectors.py\<close>

subsection \<open>WorldBankCollector\<close>

definition w_indicators_map :: "(string \<times> (string \<times> string) list) list" where
  "w_indicators_map =
     [(''population'',
        [(''SP.POP.TOTL'', ''Population, total''),
         (''SP.POP.GROW'', ''Population growth (annual %)''),
         (''SP.URB.TOTL.IN.ZS'', ''Urban population (% of total)'')]),
      (''health'',
        [(''SP.DYN.LE00.IN'', ''Life expectancy at birth, total (years)''),
         (''SH.DYN.MORT'', ''Mortality rate, under-5 (per 1,000 live births)''),
         (''SH.STA.MMRT'', ''Maternal mortality ratio'')]),
      (''education'',
        [(''SE.ADT.LITR.ZS'', ''Literacy rate, adult total (% of people ages 15 and above)''),
         (''SE.PRM.NENR'', ''School enrollment, primary (% net)''),
         (''SE.SEC.NENR'', ''School enrollment, secondary (% net)'')]),
      (''economy'',
        [(''NY.GDP.MKTP.CD'', ''GDP (current US$)''),
         (''NY.GDP.PCAP.CD'', ''GDP per capita (current US$)''),
         (''NY.GDP.MKTP.KD.ZG'', ''GDP growth (annual %)'')]),
      (''agriculture'',
        [(''AG.LND.AGRI.ZS'', ''Agricultural land (% of land area)''),
         (''AG.PRD.CROP.XD'', ''Crop production index''),
         (''AG.LND.ARBL.ZS'', ''Arable land (% of land area)'')]),
      (''mining'',
        [(''NY.GDP.MINR.RT.ZS'', ''Mineral rents (% of GDP)''),
         (''TX.VAL.MRCH.CD.WT'', ''Merchandise exports (current US$)'')])]"

text \<open>\<^verbatim>\<open>_get_indicators_by_type\<close>: \<^verbatim>\<open>indicators_map.get(data_type.lower(), {})\<close>.\<close>

definition w_get_indicators_by_type :: "string \<Rightarrow> (string \<times> string) list" where
  "w_get_indicators_by_type data_type =
     (case map_of w_indicators_map (lower data_type) of None \<Rightarrow> [] | Some d \<Rightarrow> d)"

definition w_request :: "string \<Rightarrow> request" where
  "w_request indicator_code =
     \<lparr>url = ''https://api.worldbank.org/v2'' @ ''/country/'' @ ''ZMB'' @ ''/indicator/''
              @ indicator_code,
      params = [(''format'', JStr ''json''), (''date'', JStr ''2015:2023''),
                (''per_page'', JInt 50)],
      timeout = 15\<rparr>"

definition w_record :: "string \<Rightarrow> string \<Rightarrow> json \<Rightarrow> exn + json" where
  "w_record indicator_code indicator_name item =
     py_bind (py_get_default item ''date'' (JStr ''N/A'')) (\<lambda>date.
     py_bind (py_get_default item ''value'' (JStr ''N/A'')) (\<lambda>v.
       Inr (JObj [(''Indicator'', JStr indicator_name),
                  (''Indicator_Code'', JStr indicator_code),
                  (''Year'', date), (''Value'', v),
                  (''Country'', JStr ''Zambia''), (''Source'', JStr ''World Bank'')])))"

fun w_observations ::
  "string \<Rightarrow> string \<Rightarrow> json list \<Rightarrow> json list \<Rightarrow> exn option \<times> json list" where
  "w_observations indicator_code indicator_name [] all_data = (None, all_data)"
| "w_observations indicator_code indicator_name (item # items) all_data =
     (case py_get item ''value'' of
        Inl e \<Rightarrow> (Some e, all_data)
      | Inr v \<Rightarrow>
          if v \<noteq> JNull then
            (case w_record indicator_code indicator_name item of
               Inl e \<Rightarrow> (Some e, all_data)
             | Inr r \<Rightarrow> w_observations indicator_code indicator_name items (all_data @ [r]))
          else w_observations indicator_code indicator_name items all_data)"

definition w_parse ::
  "string \<Rightarrow> string \<Rightarrow> json \<Rightarrow> json list \<Rightarrow> exn option \<times> json list" where
  "w_parse indicator_code indicator_name data all_data =
     (case py_len data of
        Inl e \<Rightarrow> (Some e, all_data)
      | Inr n \<Rightarrow>
          if 1 < n then
            (case py_index1 data of
               Inl e \<Rightarrow> (Some e, all_data)
             | Inr d1 \<Rightarrow>
                 if py_truthy d1 then
                   (case py_iter d1 of
                      Inl e \<Rightarrow> (Some e, all_data)
                    | Inr items \<Rightarrow>
                        w_observations indicator_code indicator_name items all_data)
                 else (None, all_data))
          else (None, all_data))"

text \<open>
  The statements of the inner \<^verbatim>\<open>try\<close>. A \<^verbatim>\<open>json.JSONDecodeError\<close> is caught by the
  handler around the parsing and every other exception by the handler of the round;
  both go on to the next indicator.
\<close>

definition w_indicator_outcome ::
  "string \<Rightarrow> string \<Rightarrow> exn + response \<Rightarrow> json list \<Rightarrow> exn option \<times> json list" where
  "w_indicator_outcome indicator_code indicator_name answer all_data =
     (case answer of
        Inl e \<Rightarrow> (Some e, all_data)
      | Inr response \<Rightarrow>
          if status_code response = 200 then
            (case json_result response of
               Inl e \<Rightarrow> (Some e, all_data)
             | Inr data \<Rightarrow> w_parse indicator_code indicator_name data all_data)
          else (None, all_data))"

definition w_fetch_indicator ::
  "network \<Rightarrow> string \<times> string \<Rightarrow> json list \<times> request list
     \<Rightarrow> json list \<times> request list" where
  "w_fetch_indicator net indicator st =
     (case indicator of (indicator_code, indicator_name) \<Rightarrow>
      case st of (all_data, hist) \<Rightarrow>
        (case session_get net (w_request indicator_code) hist of
           (answer, hist') \<Rightarrow>
             (snd (w_indicator_outcome indicator_code indicator_name answer all_data),
              hist')))"

fun w_fetch_all ::
  "network \<Rightarrow> (string \<times> string) list \<Rightarrow> json list \<times> request list
     \<Rightarrow> json list \<times> request list" where
  "w_fetch_all net [] st = st"
| "w_fetch_all net (indicator # indicators) st =
     w_fetch_all net indicators (w_fetch_indicator net indicator st)"

text \<open>
  The record that stands in for an empty Fetch result; \<open>year\<close> is
  \<^verbatim>\<open>datetime.now().year\<close>.
\<close>

definition w_placeholder :: "int \<Rightarrow> string \<Rightarrow> json" where
  "w_placeholder year data_type =
     JObj [(''Indicator'', JStr (title data_type @ '' Data'')),
           (''Value'',
            JStr ''API connection issue - please check World Bank API availability''),
           (''Year'', JInt year),
           (''Country'', JStr ''Zambia''),
           (''Source'', JStr ''World Bank (Connection Error)'')]"

definition w_collect_data_body ::
  "int \<Rightarrow> network \<Rightarrow> string \<Rightarrow> request list
     \<Rightarrow> (exn + collection_result) \<times> request list" where
  "w_collect_data_body year net data_type hist =
     (let indicators = w_get_indicators_by_type data_type in
      if indicators = [] then
        (Inr (Failure (''No World Bank indicators found for data type: '' @ data_type)), hist)
      else
        (case w_fetch_all net indicators ([], hist) of
           (fetched, hist') \<Rightarrow>
             (let all_data = (if fetched = [] then [w_placeholder year data_type]
                              else fetched)
              in (Inr (Success all_data
                         [(''source'', JStr ''World Bank''), (''country'', JStr ''Zambia''),
                          (''records_count'', JInt (int (length all_data)))]), hist'))))"

definition w_collect_data ::
  "int \<Rightarrow> network \<Rightarrow> string \<Rightarrow> request list
     \<Rightarrow> (exn + collection_result) \<times> request list" where
  "w_collect_data year net data_type hist =
     (case w_collect_data_body year net data_type hist of
        (Inl e, hist') \<Rightarrow>
          (Inr (Failure (''World Bank data collection failed: '' @ str_exn e)), hist')
      | (Inr r, hist') \<Rightarrow> (Inr r, hist'))"

subsection \<open>IMFCollector: the free-text pass\<close>

definition w_imf_patterns :: "(regex \<times> string) list" where
  "w_imf_patterns =
     [(W_GDP, ''GDP''), (W_Inflation, ''Inflation''), (W_Growth, ''Growth''),
      (W_Debt, ''Debt'')]"

definition w_imf_record :: "string \<Rightarrow> string \<Rightarrow> string \<Rightarrow> nat \<times> string \<Rightarrow> json" where
  "w_imf_record today data_type indicator_type jm =
     (case jm of (j, m) \<Rightarrow>
        JObj [(''Indicator'', JStr (indicator_type @ '' Related Metric '' @ str_nat (j + 1))),
              (''Value'', JStr m),
              (''Type'', JStr (title data_type)),
              (''Source'', JStr ''IMF Website''),
              (''Country'', JStr ''Zambia''),
              (''Date'', JStr today)])"

text \<open>
  \<^verbatim>\<open>for j, match in enumerate(matches[:2]): all_data.append(...)\<close> for the pattern at
  index \<open>i\<close>, whose label is \<^verbatim>\<open>indicator_types[i]\<close>.
\<close>

definition w_imf_pattern_records ::
  "findall \<Rightarrow> string \<Rightarrow> string \<Rightarrow> string \<Rightarrow> regex \<times> string \<Rightarrow> json list" where
  "w_imf_pattern_records re_findall today data_type content p =
     (case p of (pattern, indicator_type) \<Rightarrow>
        map (w_imf_record today data_type indicator_type)
          (enumerate_from0 (take 2 (re_findall pattern content))))"

text \<open>
  The block under \<^verbatim>\<open>if content:\<close> of \<^verbatim>\<open>IMFCollector.collect_data\<close>:
  \<^verbatim>\<open>for i, pattern in enumerate(patterns): ...\<close>, appending to \<^verbatim>\<open>all_data\<close>.
\<close>

definition w_imf_free_text ::
  "findall \<Rightarrow> string \<Rightarrow> string \<Rightarrow> string \<Rightarrow> json list \<Rightarrow> json list" where
  "w_imf_free_text re_findall today data_type content all_data =
     all_data @ concat (map (w_imf_pattern_records re_findall today data_type content)
                          w_imf_patterns)"

section \<open>Well-formed observations\<close>

text \<open>
  An observation is well formed when it is an object with the keys the collectors read:
  \<^verbatim>\<open>value\<close>, \<^verbatim>\<open>date\<close>, \<^verbatim>\<open>indicator\<close> (an object with \<^verbatim>\<open>value\<close> and \<^verbatim>\<open>id\<close>) and
  \<^verbatim>\<open>country\<close> (an object with \<^verbatim>\<open>value\<close>).
\<close>

definition well_formed_observation :: "json \<Rightarrow> bool" where
  "well_formed_observation item =
     (\<not> isl (py_subscript item ''value'') \<and>
      \<not> isl (py_subscript item ''date'') \<and>
      \<not> isl (py_bind (py_subscript item ''indicator'') (\<lambda>i.
               py_bind (py_subscript i ''value'') (\<lambda>v. py_subscript i ''id''))) \<and>
      \<not> isl (py_bind (py_subscript item ''country'') (\<lambda>c. py_subscript c ''value'')))"

definition observation_value :: "json \<Rightarrow> json" where
  "observation_value item =
     (case py_subscript item ''value'' of Inl e \<Rightarrow> JNull | Inr v \<Rightarrow> v)"

definition non_null :: "json \<Rightarrow> bool" where
  "non_null item = (observation_value item \<noteq> JNull)"

text \<open>The value holds as a condition: \<^verbatim>\<open>if item.get('value'):\<close> on a well-formed observation.\<close>

definition truthy_value :: "json \<Rightarrow> bool" where
  "truthy_value item = py_truthy (observation_value item)"

section \<open>Concrete inputs\<close>

text \<open>A network on which every request fails.\<close>

definition net_down :: network where
  "net_down hist req = Inl (Exn RequestException ''connection refused'')"

text \<open>A regular-expression engine for a document in which no pattern matches.\<close>

definition findall_none :: findall where
  "findall_none pattern content = []"

text \<open>A response of the World Bank API with the parsed body \<open>body\<close>.\<close>

definition ok_response :: "json \<Rightarrow> response" where
  "ok_response body =
     \<lparr>status_code = 200, http_error_text = [], json_result = Inr body,
      stat_texts = Inr [], cell_texts = Inr [], extract_result = Inr None\<rparr>"

text \<open>
  An observation as the World Bank API sends it, for the year \<open>date\<close> and with the
  value \<open>v\<close>, and a body \<^verbatim>\<open>[metadata, observations]\<close>.
\<close>

definition wb_observation :: "string \<Rightarrow> json \<Rightarrow> json" where
  "wb_observation date v =
     JObj [(''indicator'',
            JObj [(''id'', JStr ''SP.POP.TOTL''), (''value'', JStr ''Population, total'')]),
           (''country'', JObj [(''id'', JStr ''ZM''), (''value'', JStr ''Zambia'')]),
           (''date'', JStr date),
           (''value'', v)]"

definition wb_body :: "json list \<Rightarrow> json" where
  "wb_body observations = JArr [JObj [(''page'', JInt 1)], JArr observations]"

definition net_api_up :: network where
  "net_api_up hist req =
     Inr (ok_response (wb_body [wb_observation ''2024'' (JInt 21314956)]))"

text \<open>An HTML page, given by the texts of the elements the scrapers look at.\<close>

definition page_response :: "string list \<Rightarrow> response" where
  "page_response texts =
     \<lparr>status_code = 200, http_error_text = [],
      json_result = Inl (Exn JSONDecodeError ''Expecting value''),
      stat_texts = Inr texts, cell_texts = Inr texts, extract_result = Inr None\<rparr>"

text \<open>A network on which only the World Bank country page answers.\<close>

definition net_page_only :: network where
  "net_page_only hist req =
     (if url req = ''https://www.worldbank.org/en/country/zambia''
      then Inr (page_response [''Total Population: 20,218,000''])
      else Inl (Exn RequestException ''connection refused''))"

text \<open>
  A network on which the request for one indicator times out, the body for another is
  not JSON, and every other request gets one observation.
\<close>

definition net_flaky :: network where
  "net_flaky hist req =
     (if url req = url (dc_request ''SP.POP.GROW'')
      then Inl (Exn RequestException ''read timed out'')
      else if url req = url (dc_request ''SP.URB.TOTL.IN.ZS'')
      then Inr (page_response [])
      else Inr (ok_response (wb_body [wb_observation ''2023'' (JInt 5)])))"

text \<open>Six observations, none of them null.\<close>

definition six_observations :: "json list" where
  "six_observations =
     map (\<lambda>date. wb_observation date (JInt 1))
       [''2025'', ''2024'', ''2023'', ''2022'', ''2021'', ''2020'']"

text \<open>Three observations: the value zero, a null and the value seven.\<close>

definition three_observations :: "json list" where
  "three_observations =
     [wb_observation ''2024'' (JInt 0), wb_observation ''2023'' JNull,
      wb_observation ''2022'' (JInt 7)]"

text \<open>
  \<^verbatim>\<open>re.findall\<close> on the document \<^verbatim>\<open>GDP grew 1%, GDP 2%, GDP 3%, GDP 4%\<close>: the GDP
  patterns and the numeric pattern match four times, the others never.
\<close>

definition findall_gdp_document :: findall where
  "findall_gdp_document pattern content =
     (if pattern = DC_GDP \<or> pattern = DC_Numeric \<or> pattern = W_GDP
      then [''1'', ''2'', ''3'', ''4''] else [])"

text \<open>
  \<^verbatim>\<open>re.findall\<close> on the document \<^verbatim>\<open>1% 2% 3% 4% 5% 6%\<close>: the numeric pattern matches
  six times, the keyword patterns never.
\<close>

definition findall_percent_document :: findall where
  "findall_percent_document pattern content =
     (if pattern = DC_Numeric then [''1'', ''2'', ''3'', ''4'', ''5'', ''6''] else [])"

section \<open>Auxiliary facts\<close>

lemma try_world_bank_api_Inr: "\<exists>r. fst (try_world_bank_api net t hist) = Inr r"
  by (simp add: try_world_bank_api_def split: prod.splits sum.splits)

lemma scrape_world_bank_page_Inr: "\<exists>r. fst (scrape_world_bank_page today net t hist) = Inr r"
  by (simp add: scrape_world_bank_page_def split: prod.splits sum.splits)

lemma scrape_imf_data_Inr: "\<exists>r. fst (scrape_imf_data today net t hist) = Inr r"
  by (simp add: scrape_imf_data_def split: prod.splits sum.splits)

lemma robust_body_Inr: "\<exists>r. fst (robust_collect_data_body today net t hist) = Inr r"
proof -
  obtain a h1 where a: "try_world_bank_api net t hist = (Inr a, h1)"
    using try_world_bank_api_Inr[of net t hist] by (cases "try_world_bank_api net t hist") auto
  obtain s h2 where s: "scrape_world_bank_page today net t h1 = (Inr s, h2)"
    using scrape_world_bank_page_Inr[of today net t h1]
    by (cases "scrape_world_bank_page today net t h1") auto
  show ?thesis by (simp add: robust_collect_data_body_def a s)
qed

lemma robust_imf_body_Inr: "\<exists>r. fst (robust_imf_collect_data_body today net t hist) = Inr r"
proof -
  obtain s h1 where s: "scrape_imf_data today net t hist = (Inr s, h1)"
    using scrape_imf_data_Inr[of today net t hist]
    by (cases "scrape_imf_data today net t hist") auto
  show ?thesis by (simp add: robust_imf_collect_data_body_def s)
qed

lemma dc_body_Inr: "\<exists>r. fst (dc_collect_data_body net t hist) = Inr r"
  by (simp add: dc_collect_data_body_def Let_def split: prod.splits)

lemma w_body_Inr: "\<exists>r. fst (w_collect_data_body year net t hist) = Inr r"
  by (simp add: w_collect_data_body_def Let_def split: prod.splits)

lemma dc_observations_append:
  "dc_observations items (a @ b) = (case dc_observations items b of (e, r) \<Rightarrow> (e, a @ r))"
proof (induction items arbitrary: b)
  case Nil
  show ?case by simp
next
  case (Cons item items)
  have "dc_observations items (a @ b @ [r]) = (case dc_observations items (b @ [r]) of (e, r') \<Rightarrow> (e, a @ r'))" for r
    using Cons.IH[of "b @ [r]"] by simp
  then show ?case using Cons.IH[of b]
    by (simp split: sum.splits)
qed

lemma enh_observations_append:
  "enh_observations l s items (a @ b) = (case enh_observations l s items b of (e, r) \<Rightarrow> (e, a @ r))"
proof (induction items arbitrary: b)
  case Nil
  show ?case by simp
next
  case (Cons item items)
  have "enh_observations l s items (a @ b @ [r]) = (case enh_observations l s items (b @ [r]) of (e, r') \<Rightarrow> (e, a @ r'))" for r
    using Cons.IH[of "b @ [r]"] by simp
  then show ?case using Cons.IH[of b]
    by (simp split: sum.splits)
qed

lemma dc_parse_append:
  "dc_parse data (a @ b) = (case dc_parse data b of (e, r) \<Rightarrow> (e, a @ r))"
  by (simp add: dc_parse_def dc_observations_append split: sum.splits)

lemma dc_indicator_outcome_append:
  "dc_indicator_outcome answer (a @ b) = (case dc_indicator_outcome answer b of (e, r) \<Rightarrow> (e, a @ r))"
  by (simp add: dc_indicator_outcome_def dc_parse_append split: sum.splits)

lemma dc_fetch_indicator_eq:
  "dc_fetch_indicator net i (a, h) =
     (a @ snd (dc_indicator_outcome (net h (dc_request i)) []), h @ [dc_request i])"
  using dc_indicator_outcome_append[of "net h (dc_request i)" a "[]"]
  by (simp add: dc_fetch_indicator_def session_get_def split: prod.splits)

lemma dc_fetch_all_append:
  "dc_fetch_all net (xs @ ys) st = dc_fetch_all net ys (dc_fetch_all net xs st)"
  by (induction xs arbitrary: st) simp_all

lemma dc_fetch_all_hist:
  "snd (dc_fetch_all net xs (a, h)) = h @ map dc_request xs"
  by (induction xs arbitrary: a h) (simp_all add: dc_fetch_indicator_eq)

lemma dc_fetch_all_acc:
  "dc_fetch_all net xs (a, h) =
     (a @ fst (dc_fetch_all net xs ([], h)), snd (dc_fetch_all net xs ([], h)))"
proof (induction xs arbitrary: a h)
  case Nil
  show ?case by simp
next
  case (Cons x xs)
  let ?n = "snd (dc_indicator_outcome (net h (dc_request x)) [])"
  have "dc_fetch_all net (x # xs) (a, h) = dc_fetch_all net xs (a @ ?n, h @ [dc_request x])"
    by (simp add: dc_fetch_indicator_eq)
  also have "\<dots> = ((a @ ?n) @ fst (dc_fetch_all net xs ([], h @ [dc_request x])),
                    snd (dc_fetch_all net xs ([], h @ [dc_request x])))"
    by (rule Cons.IH)
  finally have l: "dc_fetch_all net (x # xs) (a, h) =
      (a @ ?n @ fst (dc_fetch_all net xs ([], h @ [dc_request x])),
       snd (dc_fetch_all net xs ([], h @ [dc_request x])))" by simp
  have "dc_fetch_all net (x # xs) ([], h) = dc_fetch_all net xs (?n, h @ [dc_request x])"
    using dc_fetch_indicator_eq[of net x "[]" h] by simp
  also have "\<dots> = (?n @ fst (dc_fetch_all net xs ([], h @ [dc_request x])),
                    snd (dc_fetch_all net xs ([], h @ [dc_request x])))"
    by (rule Cons.IH)
  finally have r: "dc_fetch_all net (x # xs) ([], h) =
      (?n @ fst (dc_fetch_all net xs ([], h @ [dc_request x])),
       snd (dc_fetch_all net xs ([], h @ [dc_request x])))" .
  show ?case unfolding l r by simp
qed

lemma dc_fetch_all_split:
  "dc_fetch_all net (pre @ ind # post) ([], hist) =
     (case dc_fetch_all net pre ([], hist) of (a, h) \<Rightarrow>
      case dc_fetch_indicator net ind ([], h) of (b, h') \<Rightarrow>
      case dc_fetch_all net post ([], h') of (c, h'') \<Rightarrow> (a @ b @ c, h''))"
proof -
  obtain a h where p: "dc_fetch_all net pre ([], hist) = (a, h)" by (cases "dc_fetch_all net pre ([], hist)")
  obtain b h' where i: "dc_fetch_indicator net ind ([], h) = (b, h')" by (cases "dc_fetch_indicator net ind ([], h)")
  obtain c h'' where q: "dc_fetch_all net post ([], h') = (c, h'')" by (cases "dc_fetch_all net post ([], h')")
  have i': "dc_fetch_indicator net ind (a, h) = (a @ b, h')"
    using i by (simp add: dc_fetch_indicator_eq)
  have "dc_fetch_all net (pre @ ind # post) ([], hist) = dc_fetch_all net post (a @ b, h')"
    by (simp add: dc_fetch_all_append p i')
  also have "\<dots> = ((a @ b) @ c, h'')"
    using dc_fetch_all_acc[of net post "a @ b" h'] q by simp
  finally show ?thesis by (simp add: p i q)
qed

lemma enh_parse_append:
  "enh_parse l s data (a @ b) = (case enh_parse l s data b of (e, r) \<Rightarrow> (e, a @ r))"
  by (simp add: enh_parse_def enh_observations_append split: sum.splits)

lemma enh_endpoint_outcome_append:
  "enh_endpoint_outcome l s answer (a @ b) =
     (case enh_endpoint_outcome l s answer b of (e, r) \<Rightarrow> (e, a @ r))"
  by (simp add: enh_endpoint_outcome_def enh_parse_append split: sum.splits)

lemma enh_fetch_indicator_acc:
  "enh_fetch_indicator net ind (a, h) =
     (a @ fst (enh_fetch_indicator net ind ([], h)), snd (enh_fetch_indicator net ind ([], h)))"
proof -
  obtain c n where ind: "ind = (c, n)" by (cases ind)
  let ?o1 = "enh_endpoint_outcome n ''World Bank API'' (net h (enh_request c)) []"
  obtain e1 r1 where o1: "?o1 = (e1, r1)" by (cases ?o1)
  have o1a: "enh_endpoint_outcome n ''World Bank API'' (net h (enh_request c)) a = (e1, a @ r1)"
    using enh_endpoint_outcome_append[of n "''World Bank API''" "net h (enh_request c)" a "[]"] o1
    by simp
  let ?ans2 = "net (h @ [enh_request c]) (enh_alt_request c)"
  have o2: "enh_endpoint_outcome l s ?ans2 (a @ r1) =
      (case enh_endpoint_outcome l s ?ans2 r1 of (e, r) \<Rightarrow> (e, a @ r))" for l s
    by (rule enh_endpoint_outcome_append)
  show ?thesis
    by (cases e1) (simp_all add: ind enh_fetch_indicator_def session_get_def o1 o1a o2 split: prod.splits)
qed

lemma enh_fetch_all_append:
  "enh_fetch_all net (xs @ ys) st = enh_fetch_all net ys (enh_fetch_all net xs st)"
  by (induction xs arbitrary: st) simp_all

lemma enh_fetch_all_acc:
  "enh_fetch_all net xs (a, h) =
     (a @ fst (enh_fetch_all net xs ([], h)), snd (enh_fetch_all net xs ([], h)))"
proof (induction xs arbitrary: a h)
  case Nil
  show ?case by simp
next
  case (Cons x xs)
  obtain b h' where i: "enh_fetch_indicator net x ([], h) = (b, h')"
    by (cases "enh_fetch_indicator net x ([], h)")
  have i': "enh_fetch_indicator net x (a, h) = (a @ b, h')"
    using enh_fetch_indicator_acc[of net x a h] i by simp
  have l: "enh_fetch_all net (x # xs) (a, h) =
      ((a @ b) @ fst (enh_fetch_all net xs ([], h')), snd (enh_fetch_all net xs ([], h')))"
    using Cons.IH[of "a @ b" h'] by (simp add: i')
  have r: "enh_fetch_all net (x # xs) ([], h) =
      (b @ fst (enh_fetch_all net xs ([], h')), snd (enh_fetch_all net xs ([], h')))"
    using Cons.IH[of b h'] by (simp add: i)
  show ?case unfolding l r by simp
qed

lemma enh_fetch_all_split:
  "enh_fetch_all net (pre @ ind # post) ([], hist) =
     (case enh_fetch_all net pre ([], hist) of (a, h) \<Rightarrow>
      case enh_fetch_indicator net ind ([], h) of (b, h') \<Rightarrow>
      case enh_fetch_all net post ([], h') of (c, h'') \<Rightarrow> (a @ b @ c, h''))"
proof -
  obtain a h where p: "enh_fetch_all net pre ([], hist) = (a, h)" by (cases "enh_fetch_all net pre ([], hist)")
  obtain b h' where i: "enh_fetch_indicator net ind ([], h) = (b, h')" by (cases "enh_fetch_indicator net ind ([], h)")
  obtain c h'' where q: "enh_fetch_all net post ([], h') = (c, h'')" by (cases "enh_fetch_all net post ([], h')")
  have i': "enh_fetch_indicator net ind (a, h) = (a @ b, h')"
    using enh_fetch_indicator_acc[of net ind a h] i by simp
  have "enh_fetch_all net (pre @ ind # post) ([], hist) = enh_fetch_all net post (a @ b, h')"
    by (simp add: enh_fetch_all_append p i')
  also have "\<dots> = ((a @ b) @ c, h'')"
    using enh_fetch_all_acc[of net post "a @ b" h'] q by simp
  finally show ?thesis by (simp add: p i q)
qed

lemma try_api_hist:
  "snd (try_world_bank_api net t hist) = hist \<or>
   (\<exists>ind. snd (try_world_bank_api net t hist) = hist @ [robust_api_request ind])"
  by (auto simp add: try_world_bank_api_def try_world_bank_api_body_def session_get_def
       split: prod.splits sum.splits option.splits if_splits)

lemma api_not_scrape: "robust_api_request ind \<noteq> robust_scrape_request"
  by (simp add: robust_api_request_def robust_scrape_request_def)

lemma try_api_no_scrape:
  "robust_scrape_request \<notin> set (drop (length hist) (snd (try_world_bank_api net t hist)))"
  using try_api_hist[of net t hist] api_not_scrape by (metis append_eq_conv_conj drop_all order_refl empty_iff empty_set set_ConsD)

lemma py_bind_not_isl: "\<not> isl (py_bind m f) \<longleftrightarrow> (\<exists>x. m = Inr x \<and> \<not> isl (f x))"
  by (cases m) (simp_all add: py_bind_def)

lemma not_isl_iff: "\<not> isl m \<longleftrightarrow> (\<exists>x. m = Inr x)"
  by (cases m) simp_all

lemma wf_value:
  "well_formed_observation item \<Longrightarrow> py_subscript item ''value'' = Inr (observation_value item)"
  by (auto simp add: well_formed_observation_def observation_value_def not_isl_iff)

lemma wf_get:
  "well_formed_observation item \<Longrightarrow> py_get item ''value'' = Inr (observation_value item)"
  by (cases item)
     (auto simp add: well_formed_observation_def observation_value_def py_get_def not_isl_iff
        split: option.splits)

lemma wf_fields:
  assumes "well_formed_observation item"
  obtains v d i iv iid c cv where
    "py_subscript item ''value'' = Inr v" "py_subscript item ''date'' = Inr d"
    "py_subscript item ''indicator'' = Inr i" "py_subscript i ''value'' = Inr iv"
    "py_subscript i ''id'' = Inr iid"
    "py_subscript item ''country'' = Inr c" "py_subscript c ''value'' = Inr cv"
proof -
  from assms obtain v where 1: "py_subscript item ''value'' = Inr v"
    by (auto simp add: well_formed_observation_def not_isl_iff)
  from assms obtain d where 2: "py_subscript item ''date'' = Inr d"
    by (auto simp add: well_formed_observation_def not_isl_iff)
  from assms have "\<not> isl (py_bind (py_subscript item ''indicator'') (\<lambda>i.
               py_bind (py_subscript i ''value'') (\<lambda>v. py_subscript i ''id'')))"
    by (simp add: well_formed_observation_def)
  then obtain i where 3: "py_subscript item ''indicator'' = Inr i"
     and i3: "\<not> isl (py_bind (py_subscript i ''value'') (\<lambda>v. py_subscript i ''id''))"
    unfolding py_bind_not_isl by blast
  from i3 obtain iv where 4: "py_subscript i ''value'' = Inr iv"
     and i4: "\<not> isl (py_subscript i ''id'')"
    unfolding py_bind_not_isl by blast
  from i4 obtain iid where 5: "py_subscript i ''id'' = Inr iid"
    unfolding not_isl_iff by blast
  from assms have "\<not> isl (py_bind (py_subscript item ''country'') (\<lambda>c. py_subscript c ''value''))"
    by (simp add: well_formed_observation_def)
  then obtain c where 6: "py_subscript item ''country'' = Inr c"
     and i6: "\<not> isl (py_subscript c ''value'')"
    unfolding py_bind_not_isl by blast
  from i6 obtain cv where 7: "py_subscript c ''value'' = Inr cv"
    unfolding not_isl_iff by blast
  from 1 2 3 4 5 6 7 that show thesis by blast
qed

lemma wf_dc_record: "well_formed_observation item \<Longrightarrow> \<exists>r. dc_record item = Inr r"
  by (erule wf_fields) (simp add: dc_record_def py_bind_def)

lemma wf_robust_record: "well_formed_observation item \<Longrightarrow> \<exists>r. robust_api_record item = Inr r"
  by (erule wf_fields) (simp add: robust_api_record_def py_bind_def)

lemma wf_enh_record: "well_formed_observation item \<Longrightarrow> \<exists>r. enh_record l s item = Inr r"
  by (erule wf_fields) (simp add: enh_record_def py_bind_def)

lemma dc_observations_wf:
  "\<forall>item\<in>set items. well_formed_observation item \<Longrightarrow>
   \<exists>rs. dc_observations items all_data = (None, all_data @ rs) \<and>
        map Inr rs = map dc_record (filter non_null items)"
proof (induction items arbitrary: all_data)
  case Nil
  show ?case by simp
next
  case (Cons item items)
  then have wf: "well_formed_observation item" by simp
  obtain r where r: "dc_record item = Inr r" using wf_dc_record[OF wf] by blast
  from Cons obtain rs where rs: "dc_observations items (all_data @ [r]) = (None, (all_data @ [r]) @ rs)"
      "map Inr rs = map dc_record (filter non_null items)" by fastforce
  from Cons obtain rs' where rs': "dc_observations items all_data = (None, all_data @ rs')"
      "map Inr rs' = map dc_record (filter non_null items)" by fastforce
  show ?case
  proof (cases "non_null item")
    case True
    then have "observation_value item \<noteq> JNull" by (simp add: non_null_def)
    then show ?thesis using True rs r wf_value[OF wf]
      by (intro exI[of _ "r # rs"]) simp
  next
    case False
    then have "observation_value item = JNull" by (simp add: non_null_def)
    then show ?thesis using False rs' wf_value[OF wf]
      by (intro exI[of _ rs']) simp
  qed
qed

lemma truthy_non_null: "truthy_value item \<Longrightarrow> non_null item"
  by (auto simp add: truthy_value_def non_null_def)

lemma subseq_truthy_non_null: "subseq (filter truthy_value xs) (filter non_null xs)"
proof -
  have "filter truthy_value xs = filter truthy_value (filter non_null xs)"
    by (auto intro: filter_cong dest: truthy_non_null)
  then show ?thesis by (metis subseq_filter_left)
qed

lemma robust_results_truthy:
  "\<forall>item\<in>set items. well_formed_observation item \<Longrightarrow>
   \<exists>rs. robust_api_results items results = Inr (results @ rs) \<and>
        map Inr rs = map robust_api_record (filter truthy_value items)"
proof (induction items arbitrary: results)
  case Nil
  show ?case by simp
next
  case (Cons item items)
  then have wf: "well_formed_observation item" by simp
  obtain r where r: "robust_api_record item = Inr r" using wf_robust_record[OF wf] by blast
  from Cons obtain rs where
    rs: "robust_api_results items (results @ [r]) = Inr ((results @ [r]) @ rs)"
        "map Inr rs = map robust_api_record (filter truthy_value items)" by fastforce
  from Cons obtain rs' where
    rs': "robust_api_results items results = Inr (results @ rs')"
         "map Inr rs' = map robust_api_record (filter truthy_value items)" by fastforce
  show ?case
  proof (cases "truthy_value item")
    case True
    then have "py_truthy (observation_value item)" by (simp add: truthy_value_def)
    then show ?thesis using True rs r wf_get[OF wf]
      by (intro exI[of _ "r # rs"]) simp
  next
    case False
    then have "\<not> py_truthy (observation_value item)" by (simp add: truthy_value_def)
    then show ?thesis using False rs' wf_get[OF wf]
      by (intro exI[of _ rs']) simp
  qed
qed

lemma enh_observations_truthy:
  "\<forall>item\<in>set items. well_formed_observation item \<Longrightarrow>
   \<exists>rs. enh_observations l s items all_data = (None, all_data @ rs) \<and>
        map Inr rs = map (enh_record l s) (filter truthy_value items)"
proof (induction items arbitrary: all_data)
  case Nil
  show ?case by simp
next
  case (Cons item items)
  then have wf: "well_formed_observation item" by simp
  obtain r where r: "enh_record l s item = Inr r" using wf_enh_record[OF wf] by blast
  from Cons obtain rs where
    rs: "enh_observations l s items (all_data @ [r]) = (None, (all_data @ [r]) @ rs)"
        "map Inr rs = map (enh_record l s) (filter truthy_value items)" by fastforce
  from Cons obtain rs' where
    rs': "enh_observations l s items all_data = (None, all_data @ rs')"
         "map Inr rs' = map (enh_record l s) (filter truthy_value items)" by fastforce
  show ?case
  proof (cases "truthy_value item")
    case True
    then have "py_truthy (observation_value item)" by (simp add: truthy_value_def)
    then show ?thesis using True rs r wf_get[OF wf]
      by (intro exI[of _ "r # rs"]) simp
  next
    case False
    then have "\<not> py_truthy (observation_value item)" by (simp add: truthy_value_def)
    then show ?thesis using False rs' wf_get[OF wf]
      by (intro exI[of _ rs']) simp
  qed
qed

lemma dc_parse_body:
  "dc_parse (JArr [meta, JArr items]) all_data =
     (if items \<noteq> [] then dc_observations items all_data else (None, all_data))"
  by (simp add: dc_parse_def)

lemma enh_parse_body:
  "enh_parse l s (JArr [meta, JArr items]) all_data =
     (if items \<noteq> [] then enh_observations l s items all_data else (None, all_data))"
  by (simp add: enh_parse_def)

lemma robust_parse_body:
  "robust_api_parse (JArr [meta, JArr items]) =
     (if items \<noteq> [] then
        py_bind (robust_api_results (take 5 items) []) (\<lambda>results.
          Inr (if results \<noteq> [] then Some results else None))
      else Inr None)"
  by (simp add: robust_api_parse_def py_bind_def)

lemma dc_parse_wf:
  assumes "\<forall>item\<in>set items. well_formed_observation item"
  shows "\<exists>rs. dc_parse (JArr [meta, JArr items]) all_data = (None, all_data @ rs) \<and>
        map Inr rs = map dc_record (filter non_null items)"
proof (cases "items = []")
  case True
  then show ?thesis by (simp add: dc_parse_body)
next
  case False
  then show ?thesis using dc_observations_wf[OF assms, of all_data]
    by (simp add: dc_parse_body)
qed

lemma enh_parse_truthy:
  assumes "\<forall>item\<in>set items. well_formed_observation item"
  shows "\<exists>rs. enh_parse l s (JArr [meta, JArr items]) all_data = (None, all_data @ rs) \<and>
        map Inr rs = map (enh_record l s) (filter truthy_value items)"
proof (cases "items = []")
  case True
  then show ?thesis by (simp add: enh_parse_body)
next
  case False
  then show ?thesis using enh_observations_truthy[OF assms, of l s all_data]
    by (simp add: enh_parse_body)
qed

lemma robust_parse_truthy:
  assumes "\<forall>item\<in>set (take 5 items). well_formed_observation item"
  shows "\<exists>rs. robust_api_parse (JArr [meta, JArr items])
               = Inr (if rs \<noteq> [] then Some rs else None) \<and>
        map Inr rs = map robust_api_record (filter truthy_value (take 5 items))"
proof (cases "items = []")
  case True
  then show ?thesis by (simp add: robust_parse_body)
next
  case False
  from robust_results_truthy[OF assms, of "[]"] obtain rs where
    rs: "robust_api_results (take 5 items) [] = Inr rs"
        "map Inr rs = map robust_api_record (filter truthy_value (take 5 items))" by auto
  have "robust_api_parse (JArr [meta, JArr items]) = Inr (if rs \<noteq> [] then Some rs else None)"
    using False rs(1) by (simp add: robust_parse_body py_bind_def)
  with rs(2) show ?thesis by blast
qed

lemma dc_fetch_indicator_raise:
  "net h (dc_request ind) = Inl e \<Longrightarrow>
   dc_fetch_indicator net ind (all_data, h) = (all_data, h @ [dc_request ind])"
  by (simp add: dc_fetch_indicator_eq dc_indicator_outcome_def)

lemma dc_fetch_indicator_malformed:
  "net h (dc_request ind) = Inr r \<Longrightarrow> isl (raise_for_status r) \<or> isl (json_result r) \<Longrightarrow>
   dc_fetch_indicator net ind (all_data, h) = (all_data, h @ [dc_request ind])"
  by (auto simp add: dc_fetch_indicator_eq dc_indicator_outcome_def isl_def split: sum.splits)

lemma enh_fetch_indicator_raise:
  "net h (enh_request (fst ind)) = Inl e \<Longrightarrow>
   enh_fetch_indicator net ind (all_data, h) = (all_data, h @ [enh_request (fst ind)])"
  by (cases ind) (simp add: enh_fetch_indicator_def session_get_def enh_endpoint_outcome_def)

lemma w_fetch_all_hist:
  "snd (w_fetch_all net xs (a, h)) = h @ map (\<lambda>i. w_request (fst i)) xs"
  by (induction xs arbitrary: a h)
     (simp_all add: w_fetch_indicator_def session_get_def split: prod.splits)

lemma enh_fetch_indicator_hist:
  "\<exists>new. snd (enh_fetch_indicator net ind (a, h)) = h @ new \<and>
         (\<forall>r\<in>set new. timeout r = 8 \<or> timeout r = 5)"
  by (cases ind)
     (auto simp add: enh_fetch_indicator_def session_get_def enh_request_def enh_alt_request_def
        split: prod.splits option.splits)

lemma enh_fetch_all_hist:
  "\<exists>new. snd (enh_fetch_all net xs (a, h)) = h @ new \<and>
         (\<forall>r\<in>set new. timeout r = 8 \<or> timeout r = 5)"
proof (induction xs arbitrary: a h)
  case Nil
  show ?case by simp
next
  case (Cons x xs)
  obtain a' h' where s: "enh_fetch_indicator net x (a, h) = (a', h')"
    by (cases "enh_fetch_indicator net x (a, h)")
  from enh_fetch_indicator_hist[of net x a h] s obtain n1 where
    n1: "h' = h @ n1" "\<forall>r\<in>set n1. timeout r = 8 \<or> timeout r = 5" by auto
  from Cons.IH[of a' h'] obtain n2 where
    n2: "snd (enh_fetch_all net xs (a', h')) = h' @ n2" "\<forall>r\<in>set n2. timeout r = 8 \<or> timeout r = 5"
    by auto
  have "snd (enh_fetch_all net (x # xs) (a, h)) = h @ (n1 @ n2)"
    using s n1(1) n2(1) by simp
  moreover have "\<forall>r\<in>set (n1 @ n2). timeout r = 8 \<or> timeout r = 5"
    using n1(2) n2(2) by auto
  ultimately show ?case by blast
qed

lemma try_api_hist5:
  "\<exists>new. snd (try_world_bank_api net t hist) = hist @ new \<and> (\<forall>r\<in>set new. timeout r = 5)"
proof -
  from try_api_hist[of net t hist] show ?thesis
  proof
    assume "snd (try_world_bank_api net t hist) = hist"
    then show ?thesis by (intro exI[of _ "[]"]) simp
  next
    assume "\<exists>ind. snd (try_world_bank_api net t hist) = hist @ [robust_api_request ind]"
    then obtain ind where "snd (try_world_bank_api net t hist) = hist @ [robust_api_request ind]" ..
    then show ?thesis
      by (intro exI[of _ "[robust_api_request ind]"]) (simp add: robust_api_request_def)
  qed
qed

lemma length_dc_pattern_records:
  "length (dc_pattern_records today label ty limit matches) = min limit (length matches)"
  by (simp add: dc_pattern_records_def enumerate_from0_def min.commute)

lemma w_known_nonempty:
  "lower t \<in> set (map fst w_indicators_map) \<Longrightarrow> w_get_indicators_by_type t \<noteq> []"
  by (auto simp add: w_indicators_map_def w_get_indicators_by_type_def)

section \<open>The claims\<close>

text \<open>
  C1. For every topic string, \<^verbatim>\<open>collect_data(topic)\<close> never raises: it returns a
  CollectionResult. The bodies of the World Bank collectors (robust, data and working
  variants) and of the robust IMF collector never raise at all, because every strategy
  and every round of the indicator loop catches its own errors. In the IMF collector of
  \<^verbatim>\<open>data_collectors.py\<close> the request, \<^verbatim>\<open>raise_for_status\<close> and the text extraction can
  raise; the error \<open>e\<close> is caught at the collector boundary and becomes the failure result
  with the message \<^verbatim>\<open>IMF website scraping failed: \<close> followed by \<^verbatim>\<open>str(e)\<close>.
\<close>

theorem collect_data_never_raises:
  "(\<exists>r. fst (robust_collect_data today net t hist) = Inr r) \<and>
   (\<exists>r. fst (robust_imf_collect_data today net t hist) = Inr r) \<and>
   (\<exists>r. fst (dc_collect_data net t hist) = Inr r) \<and>
   (\<exists>r. fst (dc_imf_collect_data re_findall today net t hist) = Inr r) \<and>
   (\<exists>r. fst (w_collect_data year net t hist) = Inr r) \<and>
   (\<exists>r. fst (robust_collect_data_body today net t hist) = Inr r) \<and>
   (\<exists>r. fst (robust_imf_collect_data_body today net t hist) = Inr r) \<and>
   (\<exists>r. fst (dc_collect_data_body net t hist) = Inr r) \<and>
   (\<exists>r. fst (w_collect_data_body year net t hist) = Inr r) \<and>
   (fst (dc_imf_collect_data_body re_findall today net t hist) = Inl e \<longrightarrow>
      fst (dc_imf_collect_data re_findall today net t hist)
        = Inr (Failure (''IMF website scraping failed: '' @ str_exn e)) \<and>
      \<not> success (Failure (''IMF website scraping failed: '' @ str_exn e)) \<and>
      ''IMF website scraping failed: '' @ str_exn e \<noteq> [])"
proof -
  have 1: "\<exists>r. fst (robust_collect_data today net t hist) = Inr r"
    by (simp add: robust_collect_data_def split: prod.splits sum.splits)
  have 2: "\<exists>r. fst (robust_imf_collect_data today net t hist) = Inr r"
    by (simp add: robust_imf_collect_data_def split: prod.splits sum.splits)
  have 3: "\<exists>r. fst (dc_collect_data net t hist) = Inr r"
    by (simp add: dc_collect_data_def split: prod.splits sum.splits)
  have 4: "\<exists>r. fst (dc_imf_collect_data re_findall today net t hist) = Inr r"
    by (simp add: dc_imf_collect_data_def split: prod.splits sum.splits)
  have 5: "\<exists>r. fst (w_collect_data year net t hist) = Inr r"
    by (simp add: w_collect_data_def split: prod.splits sum.splits)
  have 6: "fst (dc_imf_collect_data_body re_findall today net t hist) = Inl e \<longrightarrow>
      fst (dc_imf_collect_data re_findall today net t hist)
        = Inr (Failure (''IMF website scraping failed: '' @ str_exn e))"
    by (cases "dc_imf_collect_data_body re_findall today net t hist")
       (auto simp: dc_imf_collect_data_def)
  from 1 2 3 4 5 6 robust_body_Inr robust_imf_body_Inr dc_body_Inr w_body_Inr
  show ?thesis by simp
qed

theorem collect_data_never_raises_witness:
  "fst (dc_imf_collect_data_body findall_none ''2025-01-01'' net_down ''economy'' [])
     = Inl (Exn RequestException ''connection refused'') \<and>
   fst (dc_imf_collect_data findall_none ''2025-01-01'' net_down ''economy'' [])
     = Inr (Failure ''IMF website scraping failed: connection refused'')"
proof -
  have h: "fst (dc_imf_collect_data_body findall_none ''2025-01-01'' net_down ''economy'' [])
             = Inl (Exn RequestException ''connection refused'')"
    by (simp add: dc_imf_collect_data_body_def session_get_def net_down_def)
  from collect_data_never_raises
         [of "''2025-01-01''" net_down "''economy''" "[]" findall_none 0
             "Exn RequestException ''connection refused''"] h
  show ?thesis by simp
qed

text \<open>
  C4, as the code has it. Catalog lookup lowers the topic first, so two topics that
  differ only in case get the same indicators in all three catalogs. A topic that is
  not a key yields the empty list in \<^verbatim>\<open>data_collectors.py\<close> and the empty mapping in
  \<^verbatim>\<open>working_collectors.py\<close>; in \<^verbatim>\<open>enhanced_collectors.py\<close> it yields the indicators of
  \<^verbatim>\<open>economy\<close>, the default of the lookup.
\<close>

theorem catalog_lookup:
  "(lower s = lower t \<longrightarrow>
      dc_get_indicators_by_type s = dc_get_indicators_by_type t \<and>
      w_get_indicators_by_type s = w_get_indicators_by_type t \<and>
      get_2025_indicators s = get_2025_indicators t) \<and>
   (lower t \<notin> set (map fst dc_indicators_map) \<longrightarrow> dc_get_indicators_by_type t = []) \<and>
   (lower t \<notin> set (map fst w_indicators_map) \<longrightarrow> w_get_indicators_by_type t = []) \<and>
   (lower t \<notin> set (map fst enh_indicators) \<longrightarrow> get_2025_indicators t = enh_economy)"
proof -
  have n: "k \<notin> fst ` set m \<Longrightarrow> map_of m k = None"
    for k :: string and m :: "(string \<times> 'v) list"
    by (simp add: map_of_eq_None_iff)
  show ?thesis
    by (auto simp add: dc_get_indicators_by_type_def w_get_indicators_by_type_def
          get_2025_indicators_def n)
qed

theorem catalog_lookup_witness:
  "lower ''MiNing'' = lower ''mining'' \<and>
   dc_get_indicators_by_type ''MiNing''
     = [''NY.GDP.MINR.RT.ZS'', ''TX.VAL.MRCH.CD.WT'', ''EG.USE.COMM.CL.ZS''] \<and>
   w_get_indicators_by_type ''MiNing'' = w_get_indicators_by_type ''mining'' \<and>
   get_2025_indicators ''MiNing'' = get_2025_indicators ''mining'' \<and>
   lower ''sports'' \<notin> set (map fst dc_indicators_map) \<and>
   dc_get_indicators_by_type ''sports'' = [] \<and>
   lower ''sports'' \<notin> set (map fst w_indicators_map) \<and>
   w_get_indicators_by_type ''sports'' = [] \<and>
   lower ''sports'' \<notin> set (map fst enh_indicators) \<and>
   get_2025_indicators ''sports'' = enh_economy"
proof -
  have a: "lower ''MiNing'' = lower ''mining''" by code_simp
  have b: "lower ''sports'' \<notin> set (map fst dc_indicators_map)" by code_simp
  have c: "lower ''sports'' \<notin> set (map fst w_indicators_map)" by code_simp
  have d: "lower ''sports'' \<notin> set (map fst enh_indicators)" by code_simp
  have e: "dc_get_indicators_by_type ''mining''
             = [''NY.GDP.MINR.RT.ZS'', ''TX.VAL.MRCH.CD.WT'', ''EG.USE.COMM.CL.ZS'']"
    by code_simp
  from catalog_lookup[of "''MiNing''" "''mining''"] catalog_lookup[of s "''sports''"] a b c d e
  show ?thesis by simp
qed

text \<open>
  The sentence of C4 as it is written fails in \<^verbatim>\<open>enhanced_collectors.py\<close>: the topic
  \<^verbatim>\<open>sports\<close> is no key of the catalog, and the lookup returns the indicator set of another
  topic, \<^verbatim>\<open>economy\<close>, which is not empty.
\<close>

theorem catalog_lookup_counterexample:
  "map_of enh_indicators (lower ''sports'') = None \<and>
   get_2025_indicators ''sports'' \<noteq> [] \<and>
   get_2025_indicators ''sports'' = get_2025_indicators ''economy''"
  by code_simp

text \<open>
  C2. The robust World Bank collector tries Fetch, then Scrape, then the Reference Table,
  and returns the records of the first strategy that yields a non-empty list. When Fetch
  yields the non-empty list \<open>recs\<close>, the result carries \<open>recs\<close> as it is, and the
  requests made are those of Fetch alone: the page of the Scrape strategy is not
  requested. When Fetch yields nothing and Scrape yields \<open>recs\<close>, the result carries
  \<open>recs\<close>; when both yield nothing, it carries the Reference Table's records.
\<close>

theorem first_strategy_wins:
  "(try_world_bank_api net t hist = (Inr (Some recs), h1) \<and> recs \<noteq> [] \<longrightarrow>
      robust_collect_data today net t hist
        = (Inr (Success recs (robust_metadata ''World Bank API'')), h1) \<and>
      robust_scrape_request \<notin> set (drop (length hist) h1)) \<and>
   (try_world_bank_api net t hist = (Inr api, h1) \<and> \<not> truthy_records api \<and>
    scrape_world_bank_page today net t h1 = (Inr (Some recs), h2) \<and> recs \<noteq> [] \<longrightarrow>
      robust_collect_data today net t hist
        = (Inr (Success recs (robust_metadata ''World Bank Website'')), h2)) \<and>
   (try_world_bank_api net t hist = (Inr api, h1) \<and> \<not> truthy_records api \<and>
    scrape_world_bank_page today net t h1 = (Inr scraped, h2) \<and>
    \<not> truthy_records scraped \<longrightarrow>
      robust_collect_data today net t hist
        = (Inr (Success (get_fallback_data t)
                  (robust_metadata ''World Bank Reference Data'')), h2))"
proof -
  have a: "robust_scrape_request \<notin> set (drop (length hist) h1)"
    if "try_world_bank_api net t hist = (Inr (Some recs), h1)"
    using try_api_no_scrape[of hist net t] that by simp
  show ?thesis
    using a by (simp add: robust_collect_data_def robust_collect_data_body_def)
qed

theorem first_strategy_wins_witness:
  "robust_collect_data ''2025-06-01'' net_api_up ''Population'' []
     = (Inr (Success [JObj [(''Indicator'', JStr ''Population, total''),
                            (''Year'', JStr ''2024''), (''Value'', JInt 21314956),
                            (''Country'', JStr ''Zambia''),
                            (''Source'', JStr ''World Bank API'')]]
               (robust_metadata ''World Bank API'')),
        [robust_api_request ''SP.POP.TOTL'']) \<and>
   robust_collect_data ''2025-06-01'' net_page_only ''Population'' []
     = (Inr (Success [robust_scrape_record ''2025-06-01'' ''Population''
                        ''Total Population: 20,218,000'']
               (robust_metadata ''World Bank Website'')),
        [robust_api_request ''SP.POP.TOTL'', robust_scrape_request]) \<and>
   robust_collect_data ''2025-06-01'' net_down ''mining'' []
     = (Inr (Success (get_fallback_data ''mining'')
               (robust_metadata ''World Bank Reference Data'')),
        [robust_api_request ''NY.GDP.MINR.RT.ZS'', robust_scrape_request])"
proof -
  let ?rec = "JObj [(''Indicator'', JStr ''Population, total''),
                    (''Year'', JStr ''2024''), (''Value'', JInt 21314956),
                    (''Country'', JStr ''Zambia''), (''Source'', JStr ''World Bank API'')]"
  let ?scr = "robust_scrape_record ''2025-06-01'' ''Population''
                ''Total Population: 20,218,000''"
  have a: "try_world_bank_api net_api_up ''Population'' []
             = (Inr (Some [?rec]), [robust_api_request ''SP.POP.TOTL''])"
    by code_simp
  have b1: "try_world_bank_api net_page_only ''Population'' []
              = (Inr None, [robust_api_request ''SP.POP.TOTL''])"
    by code_simp
  have b2: "scrape_world_bank_page ''2025-06-01'' net_page_only ''Population''
              [robust_api_request ''SP.POP.TOTL'']
              = (Inr (Some [?scr]), [robust_api_request ''SP.POP.TOTL'', robust_scrape_request])"
    by code_simp
  have c1: "try_world_bank_api net_down ''mining'' []
              = (Inr None, [robust_api_request ''NY.GDP.MINR.RT.ZS''])"
    by code_simp
  have c2: "scrape_world_bank_page ''2025-06-01'' net_down ''mining''
              [robust_api_request ''NY.GDP.MINR.RT.ZS'']
              = (Inr None, [robust_api_request ''NY.GDP.MINR.RT.ZS'', robust_scrape_request])"
    by code_simp
  from first_strategy_wins
         [of net_api_up "''Population''" "[]" "[?rec]" "[robust_api_request ''SP.POP.TOTL'']"]
       a
  have r1: "robust_collect_data ''2025-06-01'' net_api_up ''Population'' []
     = (Inr (Success [?rec] (robust_metadata ''World Bank API'')),
        [robust_api_request ''SP.POP.TOTL''])"
    by simp
  from first_strategy_wins
         [of net_page_only "''Population''" "[]" "[?scr]" "[robust_api_request ''SP.POP.TOTL'']"
             "''2025-06-01''" None "[robust_api_request ''SP.POP.TOTL'', robust_scrape_request]"]
       b1 b2
  have r2: "robust_collect_data ''2025-06-01'' net_page_only ''Population'' []
     = (Inr (Success [?scr] (robust_metadata ''World Bank Website'')),
        [robust_api_request ''SP.POP.TOTL'', robust_scrape_request])"
    by simp
  from first_strategy_wins
         [of net_down "''mining''" "[]" "[]" "[robust_api_request ''NY.GDP.MINR.RT.ZS'']"
             "''2025-06-01''" None
             "[robust_api_request ''NY.GDP.MINR.RT.ZS'', robust_scrape_request]" None]
       c1 c2
  have r3: "robust_collect_data ''2025-06-01'' net_down ''mining'' []
     = (Inr (Success (get_fallback_data ''mining'')
               (robust_metadata ''World Bank Reference Data'')),
        [robust_api_request ''NY.GDP.MINR.RT.ZS'', robust_scrape_request])"
    by simp
  from r1 r2 r3 show ?thesis by simp
qed

text \<open>
  What the robust World Bank collector does for a topic that is no key of the Reference
  Table when Fetch and Scrape both yield nothing: the table lookup gives the empty list,
  and the collector wraps it in a success result.
\<close>

lemma empty_reference_result:
  "map_of base_data (lower t) = None \<and>
   try_world_bank_api net t hist = (Inr api, h1) \<and> \<not> truthy_records api \<and>
   scrape_world_bank_page today net t h1 = (Inr scraped, h2) \<and> \<not> truthy_records scraped \<longrightarrow>
     robust_collect_data today net t hist
       = (Inr (Success [] (robust_metadata ''World Bank Reference Data'')), h2)"
  by (simp add: robust_collect_data_def robust_collect_data_body_def get_fallback_data_def)

text \<open>
  C3. For a topic with no entry in the Reference Table, when Fetch and Scrape produce no
  records, \<^verbatim>\<open>collect_data\<close> should return a failure with a non-empty error message,
  never a success with an empty record list. The code does not: the topic \<^verbatim>\<open>sports\<close>
  has no entry in the Reference Table, Fetch and Scrape yield nothing on a network that
  is down, and the robust World Bank collector returns a success result whose record
  list is empty.
\<close>

theorem unknown_topic_empty_success:
  "map_of base_data (lower ''sports'') = None \<and>
   try_world_bank_api net_down ''sports'' [] = (Inr None, []) \<and>
   scrape_world_bank_page ''2025-06-01'' net_down ''sports'' []
     = (Inr None, [robust_scrape_request]) \<and>
   robust_collect_data ''2025-06-01'' net_down ''sports'' []
     = (Inr (Success [] (robust_metadata ''World Bank Reference Data'')),
        [robust_scrape_request]) \<and>
   success (Success [] (robust_metadata ''World Bank Reference Data''))"
  by code_simp

text \<open>
  C5, as the code has it, for a parsed body \<^verbatim>\<open>[metadata, observations]\<close> of well-formed
  observations. In \<^verbatim>\<open>data_collectors.py\<close> the Fetch loop appends exactly one record for
  each observation whose value is not null, in order; the number zero is not null. In
  \<^verbatim>\<open>robust_collectors.py\<close> only the first five observations are looked at, and in
  \<^verbatim>\<open>enhanced_collectors.py\<close> all of them. Both emit the records of a list \<open>kept\<close> of
  the observations looked at, in order: \<open>kept\<close> holds every observation whose value
  holds as a condition (a number other than zero, a non-empty string), and holds no
  observation whose value is null. Whether \<open>kept\<close> holds an observation whose value is
  not null but fails as a condition, such as zero, is left open.
\<close>

theorem fetch_emits_records:
  "((\<forall>item\<in>set items. well_formed_observation item) \<longrightarrow>
      (\<exists>rs. dc_parse (JArr [meta, JArr items]) all_data = (None, all_data @ rs) \<and>
            map Inr rs = map dc_record (filter non_null items))) \<and>
   ((\<forall>item\<in>set (take 5 items). well_formed_observation item) \<longrightarrow>
      (\<exists>rs kept.
          robust_api_parse (JArr [meta, JArr items])
            = Inr (if rs \<noteq> [] then Some rs else None) \<and>
          map Inr rs = map robust_api_record kept \<and>
          subseq (filter truthy_value (take 5 items)) kept \<and>
          subseq kept (filter non_null (take 5 items)))) \<and>
   ((\<forall>item\<in>set items. well_formed_observation item) \<longrightarrow>
      (\<exists>rs kept.
          enh_parse label source (JArr [meta, JArr items]) all_data
            = (None, all_data @ rs) \<and>
          map Inr rs = map (enh_record label source) kept \<and>
          subseq (filter truthy_value items) kept \<and>
          subseq kept (filter non_null items)))"
proof -
  have r: "\<exists>rs kept.
          robust_api_parse (JArr [meta, JArr items])
            = Inr (if rs \<noteq> [] then Some rs else None) \<and>
          map Inr rs = map robust_api_record kept \<and>
          subseq (filter truthy_value (take 5 items)) kept \<and>
          subseq kept (filter non_null (take 5 items))"
    if "\<forall>item\<in>set (take 5 items). well_formed_observation item"
  proof -
    from robust_parse_truthy[OF that, of meta] obtain rs where
      "robust_api_parse (JArr [meta, JArr items]) = Inr (if rs \<noteq> [] then Some rs else None)"
      "map Inr rs = map robust_api_record (filter truthy_value (take 5 items))" by blast
    then show ?thesis
      using subseq_truthy_non_null[of "take 5 items"]
      by (intro exI[of _ rs] exI[of _ "filter truthy_value (take 5 items)"]) simp
  qed
  have e: "\<exists>rs kept.
          enh_parse label source (JArr [meta, JArr items]) all_data
            = (None, all_data @ rs) \<and>
          map Inr rs = map (enh_record label source) kept \<and>
          subseq (filter truthy_value items) kept \<and>
          subseq kept (filter non_null items)"
    if "\<forall>item\<in>set items. well_formed_observation item"
  proof -
    from enh_parse_truthy[OF that, of label source meta all_data] obtain rs where
      "enh_parse label source (JArr [meta, JArr items]) all_data = (None, all_data @ rs)"
      "map Inr rs = map (enh_record label source) (filter truthy_value items)" by blast
    then show ?thesis
      using subseq_truthy_non_null[of items]
      by (intro exI[of _ rs] exI[of _ "filter truthy_value items"]) simp
  qed
  from r e dc_parse_wf[of items meta all_data] show ?thesis by blast
qed

theorem fetch_emits_records_witness:
  "list_all well_formed_observation three_observations \<and>
   observation_value (three_observations ! 0) = JInt 0 \<and>
   length (snd (dc_parse (wb_body three_observations) [])) = 2 \<and>
   filter truthy_value three_observations = [wb_observation ''2022'' (JInt 7)] \<and>
   filter non_null three_observations
     = [wb_observation ''2024'' (JInt 0), wb_observation ''2022'' (JInt 7)] \<and>
   robust_api_record (wb_observation ''2022'' (JInt 7))
     \<in> Inr ` set (case robust_api_parse (wb_body three_observations) of
                     Inr (Some rs) \<Rightarrow> rs | _ \<Rightarrow> []) \<and>
   enh_record ''Population, total'' ''World Bank API'' (wb_observation ''2022'' (JInt 7))
     \<in> Inr ` set (snd (enh_parse ''Population, total'' ''World Bank API''
                          (wb_body three_observations) []))"
proof -
  let ?meta = "JObj [(''page'', JInt 1)]"
  let ?seven = "wb_observation ''2022'' (JInt 7)"
  note th = fetch_emits_records
              [of three_observations ?meta "[]" "''Population, total''" "''World Bank API''"]
  have w: "list_all well_formed_observation three_observations" by code_simp
  have z: "observation_value (three_observations ! 0) = JInt 0" by code_simp
  have n: "length (filter non_null three_observations) = 2" by code_simp
  have t: "filter truthy_value three_observations = [?seven]"
          "filter truthy_value (take 5 three_observations) = [?seven]" by code_simp+
  have nn: "filter non_null three_observations
              = [wb_observation ''2024'' (JInt 0), ?seven]" by code_simp
  from w have wa: "\<forall>item\<in>set three_observations. well_formed_observation item"
    unfolding list_all_iff .
  then have w5: "\<forall>item\<in>set (take 5 three_observations). well_formed_observation item"
    by (auto dest: in_set_takeD)
  from th wa obtain rs3 where rs3:
    "dc_parse (JArr [?meta, JArr three_observations]) [] = (None, [] @ rs3)"
    "map Inr rs3 = map dc_record (filter non_null three_observations)"
    by blast
  from rs3(2) have l3: "length rs3 = 2" using n by (metis length_map)
  from th w5 obtain rsr keptr where rsr:
    "robust_api_parse (JArr [?meta, JArr three_observations])
       = Inr (if rsr \<noteq> [] then Some rsr else None)"
    "map Inr rsr = map robust_api_record keptr"
    "subseq (filter truthy_value (take 5 three_observations)) keptr"
    by blast
  from rsr(3) have "?seven \<in> set keptr"
    unfolding t subseq_singleton_left .
  then have "robust_api_record ?seven \<in> set (map robust_api_record keptr)" by simp
  then have inr: "robust_api_record ?seven \<in> Inr ` set rsr"
    unfolding rsr(2)[symmetric] by simp
  then have ner: "rsr \<noteq> []" by auto
  from th wa obtain rse kepte where rse:
    "enh_parse ''Population, total'' ''World Bank API''
       (JArr [?meta, JArr three_observations]) [] = (None, [] @ rse)"
    "map Inr rse = map (enh_record ''Population, total'' ''World Bank API'') kepte"
    "subseq (filter truthy_value three_observations) kepte"
    by blast
  from rse(3) have "?seven \<in> set kepte"
    unfolding t subseq_singleton_left .
  then have "enh_record ''Population, total'' ''World Bank API'' ?seven
               \<in> set (map (enh_record ''Population, total'' ''World Bank API'') kepte)"
    by simp
  then have ine: "enh_record ''Population, total'' ''World Bank API'' ?seven \<in> Inr ` set rse"
    unfolding rse(2)[symmetric] by simp
  from w z rs3(1) l3 t(1) nn rsr(1) inr ner rse(1) ine show ?thesis
    by (simp add: wb_body_def)
qed

text \<open>
  The sentence of C5 as it is written fails in \<^verbatim>\<open>robust_collectors.py\<close>: of six
  well-formed observations, none with a null value, the Fetch strategy emits five
  records, because it looks at \<^verbatim>\<open>data[1][:5]\<close> only.
\<close>

theorem fetch_emits_records_counterexample:
  "list_all well_formed_observation six_observations \<and>
   list_all non_null six_observations \<and>
   length six_observations = 6 \<and>
   map_sum id (map_option length) (robust_api_parse (wb_body six_observations))
     = Inr (Some 5)"
  by code_simp

text \<open>
  An observation with the value zero: \<^verbatim>\<open>data_collectors.py\<close> emits its record, while
  \<^verbatim>\<open>robust_collectors.py\<close> and \<^verbatim>\<open>enhanced_collectors.py\<close>, which test
  \<^verbatim>\<open>if item.get('value')\<close>, drop it.
\<close>

lemma zero_valued_observation:
  "well_formed_observation (wb_observation ''2024'' (JInt 0)) \<and>
   non_null (wb_observation ''2024'' (JInt 0)) \<and>
   length (snd (dc_parse (wb_body [wb_observation ''2024'' (JInt 0)]) [])) = 1 \<and>
   robust_api_parse (wb_body [wb_observation ''2024'' (JInt 0)]) = Inr None \<and>
   enh_parse ''Population, total'' ''World Bank API''
     (wb_body [wb_observation ''2024'' (JInt 0)]) [] = (None, [])"
  by code_simp

text \<open>
  C6. In the Fetch loops of \<^verbatim>\<open>data_collectors.py\<close> and \<^verbatim>\<open>enhanced_collectors.py\<close> a
  failure for one indicator ends the round of that indicator only. The result of the
  loop over \<open>pre @ ind # post\<close> is made of three parts, in order: what the loop over
  \<open>pre\<close> gives, what the round of \<open>ind\<close> gives on the history reached by then, and
  what the loop over \<open>post\<close> gives afterwards, whatever failed in any of them. In
  \<^verbatim>\<open>data_collectors.py\<close> every indicator is requested exactly once, and the round of an
  indicator adds the records its own answer yields; a request that raises, an error
  status or a body that is not JSON adds nothing and the loop goes on.
\<close>

theorem indicator_failure_is_skipped:
  "dc_fetch_all net (pre @ ind # post) ([], hist) =
     (case dc_fetch_all net pre ([], hist) of (a, h) \<Rightarrow>
      case dc_fetch_indicator net ind ([], h) of (b, h') \<Rightarrow>
      case dc_fetch_all net post ([], h') of (c, h'') \<Rightarrow> (a @ b @ c, h'')) \<and>
   snd (dc_fetch_all net inds ([], hist)) = hist @ map dc_request inds \<and>
   dc_fetch_indicator net ind (all_data, h) =
     (all_data @ snd (dc_indicator_outcome (net h (dc_request ind)) []),
      h @ [dc_request ind]) \<and>
   (net h (dc_request ind) = Inl e \<longrightarrow>
      dc_fetch_indicator net ind (all_data, h) = (all_data, h @ [dc_request ind])) \<and>
   (net h (dc_request ind) = Inr r \<and> (isl (raise_for_status r) \<or> isl (json_result r)) \<longrightarrow>
      dc_fetch_indicator net ind (all_data, h) = (all_data, h @ [dc_request ind])) \<and>
   enh_fetch_all net (epre @ eind # epost) ([], hist) =
     (case enh_fetch_all net epre ([], hist) of (a, h) \<Rightarrow>
      case enh_fetch_indicator net eind ([], h) of (b, h') \<Rightarrow>
      case enh_fetch_all net epost ([], h') of (c, h'') \<Rightarrow> (a @ b @ c, h'')) \<and>
   (net h (enh_request (fst eind)) = Inl e \<longrightarrow>
      enh_fetch_indicator net eind (all_data, h)
        = (all_data, h @ [enh_request (fst eind)]))"
  using dc_fetch_all_split[of net pre ind post hist] dc_fetch_all_hist[of net inds "[]" hist]
    dc_fetch_indicator_eq[of net ind all_data h]
    dc_fetch_indicator_raise[of net h ind e all_data]
    dc_fetch_indicator_malformed[of net h ind r all_data]
    enh_fetch_all_split[of net epre eind epost hist]
    enh_fetch_indicator_raise[of net h eind e all_data]
  by blast

theorem indicator_failure_is_skipped_witness:
  "net_flaky [dc_request ''SP.POP.TOTL''] (dc_request ''SP.POP.GROW'')
     = Inl (Exn RequestException ''read timed out'') \<and>
   dc_fetch_indicator net_flaky ''SP.POP.GROW'' ([JNull], [dc_request ''SP.POP.TOTL''])
     = ([JNull], [dc_request ''SP.POP.TOTL'', dc_request ''SP.POP.GROW'']) \<and>
   net_flaky [] (dc_request ''SP.URB.TOTL.IN.ZS'') = Inr (page_response []) \<and>
   isl (json_result (page_response [])) \<and>
   dc_fetch_indicator net_flaky ''SP.URB.TOTL.IN.ZS'' ([JNull], [])
     = ([JNull], [dc_request ''SP.URB.TOTL.IN.ZS'']) \<and>
   length (fst (dc_fetch_all net_flaky
        [''SP.POP.TOTL'', ''SP.POP.GROW'', ''SP.URB.TOTL.IN.ZS'', ''SP.RUR.TOTL.ZS'']
        ([], []))) = 2 \<and>
   snd (dc_fetch_all net_flaky
        [''SP.POP.TOTL'', ''SP.POP.GROW'', ''SP.URB.TOTL.IN.ZS'', ''SP.RUR.TOTL.ZS'']
        ([], []))
     = map dc_request
         [''SP.POP.TOTL'', ''SP.POP.GROW'', ''SP.URB.TOTL.IN.ZS'', ''SP.RUR.TOTL.ZS''] \<and>
   net_down [] (enh_request (fst (''SP.POP.TOTL'', ''Population, total'')))
     = Inl (Exn RequestException ''connection refused'') \<and>
   enh_fetch_indicator net_down (''SP.POP.TOTL'', ''Population, total'') ([JNull], [])
     = ([JNull], [enh_request ''SP.POP.TOTL''])"
proof -
  note th = indicator_failure_is_skipped
         [of net_flaky "[]" "''SP.POP.GROW''" "[]" "[]"
             "[''SP.POP.TOTL'', ''SP.POP.GROW'', ''SP.URB.TOTL.IN.ZS'', ''SP.RUR.TOTL.ZS'']"
             "[JNull]" "[dc_request ''SP.POP.TOTL'']"
             "Exn RequestException ''read timed out''"]
  note th2 = indicator_failure_is_skipped
         [of net_flaky "[]" "''SP.URB.TOTL.IN.ZS''" "[]" "[]" "[]" "[JNull]" "[]"
             "Exn RequestException ''read timed out''" "page_response []"]
  note th3 = indicator_failure_is_skipped
         [of net_down "[]" "''SP.POP.TOTL''" "[]" "[]" "[]" "[JNull]" "[]"
             "Exn RequestException ''connection refused''" "page_response []" "[]"
             "(''SP.POP.TOTL'', ''Population, total'')"]
  have a: "net_flaky [dc_request ''SP.POP.TOTL''] (dc_request ''SP.POP.GROW'')
     = Inl (Exn RequestException ''read timed out'')" by code_simp
  have b: "length (fst (dc_fetch_all net_flaky
        [''SP.POP.TOTL'', ''SP.POP.GROW'', ''SP.URB.TOTL.IN.ZS'', ''SP.RUR.TOTL.ZS'']
        ([], []))) = 2" by code_simp
  from th a have c:
    "dc_fetch_indicator net_flaky ''SP.POP.GROW'' ([JNull], [dc_request ''SP.POP.TOTL''])
       = ([JNull], [dc_request ''SP.POP.TOTL''] @ [dc_request ''SP.POP.GROW''])" by blast
  from th have d: "snd (dc_fetch_all net_flaky
        [''SP.POP.TOTL'', ''SP.POP.GROW'', ''SP.URB.TOTL.IN.ZS'', ''SP.RUR.TOTL.ZS'']
        ([], []))
     = [] @ map dc_request
               [''SP.POP.TOTL'', ''SP.POP.GROW'', ''SP.URB.TOTL.IN.ZS'', ''SP.RUR.TOTL.ZS'']"
    by blast
  have e: "net_flaky [] (dc_request ''SP.URB.TOTL.IN.ZS'') = Inr (page_response [])"
    by code_simp
  have f: "isl (json_result (page_response []))" by code_simp
  from th2 e f have g:
    "dc_fetch_indicator net_flaky ''SP.URB.TOTL.IN.ZS'' ([JNull], [])
       = ([JNull], [] @ [dc_request ''SP.URB.TOTL.IN.ZS''])" by blast
  have i: "net_down [] (enh_request (fst (''SP.POP.TOTL'', ''Population, total'')))
     = Inl (Exn RequestException ''connection refused'')" by code_simp
  from th3 i have j:
    "enh_fetch_indicator net_down (''SP.POP.TOTL'', ''Population, total'') ([JNull], [])
       = ([JNull], [] @ [enh_request (fst (''SP.POP.TOTL'', ''Population, total''))])"
    by blast
  from a b c d e f g i j show ?thesis by simp
qed

text \<open>
  C7, as the code has it. Every request the Fetch strategy makes for an indicator code
  has the timeout 30 in \<^verbatim>\<open>data_collectors.py\<close>, 15 in \<^verbatim>\<open>working_collectors.py\<close>, 8
  (primary endpoint) or 5 (alternative endpoint) in \<^verbatim>\<open>enhanced_collectors.py\<close>, and 5
  in \<^verbatim>\<open>robust_collectors.py\<close>.
\<close>

theorem fetch_timeouts:
  "(\<exists>new. snd (dc_fetch_all net inds (all_data, hist)) = hist @ new \<and>
          length new = length inds \<and> (\<forall>r\<in>set new. timeout r = 30)) \<and>
   (\<exists>new. snd (w_fetch_all net winds (all_data, hist)) = hist @ new \<and>
          length new = length winds \<and> (\<forall>r\<in>set new. timeout r = 15)) \<and>
   (\<exists>new. snd (enh_fetch_all net einds (all_data, hist)) = hist @ new \<and>
          (\<forall>r\<in>set new. timeout r = 8 \<or> timeout r = 5)) \<and>
   (\<exists>new. snd (try_world_bank_api net t hist) = hist @ new \<and>
          (\<forall>r\<in>set new. timeout r = 5))"
proof -
  have 1: "\<exists>new. snd (dc_fetch_all net inds (all_data, hist)) = hist @ new \<and>
          length new = length inds \<and> (\<forall>r\<in>set new. timeout r = 30)"
    by (intro exI[of _ "map dc_request inds"]) (simp add: dc_fetch_all_hist dc_request_def)
  have 2: "\<exists>new. snd (w_fetch_all net winds (all_data, hist)) = hist @ new \<and>
          length new = length winds \<and> (\<forall>r\<in>set new. timeout r = 15)"
    by (intro exI[of _ "map (\<lambda>i. w_request (fst i)) winds"])
       (simp add: w_fetch_all_hist w_request_def)
  from 1 2 enh_fetch_all_hist[of net einds all_data hist] try_api_hist5[of net t hist]
  show ?thesis by blast
qed

theorem fetch_timeouts_witness:
  "list_all (\<lambda>r. timeout r = 30)
     (snd (dc_fetch_all net_down (dc_get_indicators_by_type ''population'') ([], []))) \<and>
   length (snd (dc_fetch_all net_down (dc_get_indicators_by_type ''population'') ([], [])))
     = 4 \<and>
   list_all (\<lambda>r. timeout r = 15)
     (snd (w_fetch_all net_down (w_get_indicators_by_type ''population'') ([], []))) \<and>
   length (snd (w_fetch_all net_down (w_get_indicators_by_type ''population'') ([], [])))
     = 3"
proof -
  note th = fetch_timeouts[of net_down "dc_get_indicators_by_type ''population''" "[]" "[]"
                 "w_get_indicators_by_type ''population''"]
  have l: "length (dc_get_indicators_by_type ''population'') = 4"
          "length (w_get_indicators_by_type ''population'') = 3" by code_simp+
  from th obtain n1 where n1:
    "snd (dc_fetch_all net_down (dc_get_indicators_by_type ''population'') ([], [])) = [] @ n1"
    "length n1 = length (dc_get_indicators_by_type ''population'')"
    "\<forall>r\<in>set n1. timeout r = 30" by blast
  from th obtain n2 where n2:
    "snd (w_fetch_all net_down (w_get_indicators_by_type ''population'') ([], [])) = [] @ n2"
    "length n2 = length (w_get_indicators_by_type ''population'')"
    "\<forall>r\<in>set n2. timeout r = 15" by blast
  from n1 n2 l show ?thesis by (simp add: list_all_iff)
qed

text \<open>
  The sentence of C7 as it is written fails in \<^verbatim>\<open>data_collectors.py\<close>: for the topic
  \<^verbatim>\<open>population\<close> the collector makes four requests, each with the timeout 30, which is
  more than 15.
\<close>

theorem fetch_timeouts_counterexample:
  "map timeout (snd (dc_collect_data net_down ''population'' [])) = [30, 30, 30, 30] \<and>
   \<not> (30::nat) \<le> 15"
  by code_simp

text \<open>
  C8, as the code has it. In \<^verbatim>\<open>_parse_imf_content\<close> of \<^verbatim>\<open>data_collectors.py\<close> the topic
  \<^verbatim>\<open>economy\<close> emits the records of the GDP pattern and then those of the inflation
  pattern, at most 3 each; every other topic emits the records of the numeric pattern,
  at most 10. In the free-text pass of the IMF collector of \<^verbatim>\<open>working_collectors.py\<close>
  each of the four patterns emits at most 2 records. A pattern with fewer matches than
  its limit emits one record per match.
\<close>

theorem pattern_caps:
  "(lower t = ''economy'' \<longrightarrow>
      parse_imf_content re_findall today content t =
        dc_pattern_records today ''GDP Related Metric '' ''Economic'' 3
          (re_findall DC_GDP content) @
        dc_pattern_records today ''Inflation Related Metric '' ''Economic'' 3
          (re_findall DC_Inflation content)) \<and>
   (lower t \<noteq> ''economy'' \<longrightarrow>
      parse_imf_content re_findall today content t =
        dc_pattern_records today (title t @ '' Metric '') (title t) 10
          (re_findall DC_Numeric content)) \<and>
   length (dc_pattern_records today label ty limit matches) = min limit (length matches) \<and>
   w_imf_free_text re_findall today t content all_data =
     all_data @ concat (map (w_imf_pattern_records re_findall today t content)
                          w_imf_patterns) \<and>
   (\<forall>p\<in>set w_imf_patterns.
      length (w_imf_pattern_records re_findall today t content p)
        = min 2 (length (re_findall (fst p) content)))"
  by (auto simp add: parse_imf_content_def Let_def length_dc_pattern_records
        w_imf_free_text_def w_imf_pattern_records_def enumerate_from0_def min.commute
        split: prod.splits)

theorem pattern_caps_witness:
  "lower ''Economy'' = ''economy'' \<and>
   length (parse_imf_content findall_gdp_document ''2025-06-01''
             ''GDP grew 1%, GDP 2%, GDP 3%, GDP 4%'' ''Economy'') = 3 \<and>
   lower ''health'' \<noteq> ''economy'' \<and>
   length (parse_imf_content findall_gdp_document ''2025-06-01''
             ''GDP grew 1%, GDP 2%, GDP 3%, GDP 4%'' ''health'') = 4 \<and>
   (W_GDP, ''GDP'') \<in> set w_imf_patterns \<and>
   length (w_imf_pattern_records findall_gdp_document ''2025-06-01'' ''health''
             ''GDP grew 1%, GDP 2%, GDP 3%, GDP 4%'' (W_GDP, ''GDP'')) = 2"
proof -
  let ?doc = "''GDP grew 1%, GDP 2%, GDP 3%, GDP 4%''"
  note th1 = pattern_caps[of "''Economy''" findall_gdp_document "''2025-06-01''" ?doc
                  "''GDP Related Metric ''" "''Economic''" 3
                  "findall_gdp_document DC_GDP ?doc" "[]"]
  note th2 = pattern_caps[of "''health''" findall_gdp_document "''2025-06-01''" ?doc
                  "title ''health'' @ '' Metric ''" "title ''health''" 10
                  "findall_gdp_document DC_Numeric ?doc" "[]"]
  have a: "lower ''Economy'' = ''economy''" "lower ''health'' \<noteq> ''economy''" by code_simp+
  have b: "(W_GDP, ''GDP'') \<in> set w_imf_patterns" by code_simp
  have m: "length (findall_gdp_document DC_GDP ?doc) = 4"
          "findall_gdp_document DC_Inflation ?doc = []"
          "length (findall_gdp_document DC_Numeric ?doc) = 4"
          "length (findall_gdp_document W_GDP ?doc) = 4" by code_simp+
  from th1 a have e:
    "parse_imf_content findall_gdp_document ''2025-06-01'' ?doc ''Economy'' =
        dc_pattern_records ''2025-06-01'' ''GDP Related Metric '' ''Economic'' 3
          (findall_gdp_document DC_GDP ?doc) @
        dc_pattern_records ''2025-06-01'' ''Inflation Related Metric '' ''Economic'' 3
          (findall_gdp_document DC_Inflation ?doc)" by blast
  from th1 have l1:
    "length (dc_pattern_records ''2025-06-01'' ''GDP Related Metric '' ''Economic'' 3
               (findall_gdp_document DC_GDP ?doc))
       = min 3 (length (findall_gdp_document DC_GDP ?doc))" by blast
  have l0: "dc_pattern_records ''2025-06-01'' ''Inflation Related Metric '' ''Economic'' 3 []
              = []" by code_simp
  from th2 a have h:
    "parse_imf_content findall_gdp_document ''2025-06-01'' ?doc ''health'' =
        dc_pattern_records ''2025-06-01'' (title ''health'' @ '' Metric '') (title ''health'')
          10 (findall_gdp_document DC_Numeric ?doc)" by blast
  from th2 have l2:
    "length (dc_pattern_records ''2025-06-01'' (title ''health'' @ '' Metric '')
               (title ''health'') 10 (findall_gdp_document DC_Numeric ?doc))
       = min 10 (length (findall_gdp_document DC_Numeric ?doc))" by blast
  from th2 b have w:
    "length (w_imf_pattern_records findall_gdp_document ''2025-06-01'' ''health'' ?doc
               (W_GDP, ''GDP''))
       = min 2 (length (findall_gdp_document (fst (W_GDP, ''GDP'')) ?doc))" by blast
  from a b e h w m l0 l1 l2 show ?thesis by simp
qed

text \<open>
  The sentence of C8 as it is written fails in \<^verbatim>\<open>data_collectors.py\<close>: for the topic
  \<^verbatim>\<open>health\<close> and a document in which the numeric pattern matches six times, the single
  pattern emits six records, more than five.
\<close>

theorem pattern_caps_counterexample:
  "lower ''health'' \<noteq> ''economy'' \<and>
   length (parse_imf_content findall_percent_document ''2025-06-01''
             ''1% 2% 3% 4% 5% 6%'' ''health'') = 6 \<and>
   \<not> (6::nat) \<le> 5"
  by code_simp

text \<open>
  C9. Two consecutive calls of the robust World Bank collector for the same topic, in
  each of which Fetch and Scrape yield nothing, both succeed with the same record list,
  the Reference Table's records for the topic, on whatever days the calls are made and
  whatever the network answered. The same holds for the robust IMF collector when its
  Scrape strategy yields nothing in both calls.
\<close>

theorem reference_path_repeatable:
  "(try_world_bank_api net t h0 = (Inr a1, h1) \<and> \<not> truthy_records a1 \<and>
    scrape_world_bank_page today1 net t h1 = (Inr s1, h2) \<and> \<not> truthy_records s1 \<and>
    try_world_bank_api net t h2 = (Inr a2, h3) \<and> \<not> truthy_records a2 \<and>
    scrape_world_bank_page today2 net t h3 = (Inr s2, h4) \<and> \<not> truthy_records s2 \<longrightarrow>
    (\<exists>r1 r2. robust_collect_data today1 net t h0 = (Inr r1, h2) \<and>
             robust_collect_data today2 net t h2 = (Inr r2, h4) \<and>
             success r1 \<and> success r2 \<and>
             result_data r1 = get_fallback_data t \<and> result_data r2 = result_data r1)) \<and>
   (scrape_imf_data today1 net t h0 = (Inr s1, h1) \<and> \<not> truthy_records s1 \<and>
    scrape_imf_data today2 net t h1 = (Inr s2, h2) \<and> \<not> truthy_records s2 \<longrightarrow>
    (\<exists>r1 r2. robust_imf_collect_data today1 net t h0 = (Inr r1, h1) \<and>
             robust_imf_collect_data today2 net t h1 = (Inr r2, h2) \<and>
             success r1 \<and> success r2 \<and>
             result_data r1 = get_imf_fallback_data t \<and> result_data r2 = result_data r1))"
  by (simp add: robust_collect_data_def robust_collect_data_body_def
        robust_imf_collect_data_def robust_imf_collect_data_body_def)

theorem reference_path_repeatable_witness:
  "map_sum id result_data (fst (robust_collect_data ''2025-06-01'' net_down ''mining'' []))
     = Inr (get_fallback_data ''mining'') \<and>
   map_sum id result_data
     (fst (robust_collect_data ''2025-06-02'' net_down ''mining''
             [robust_api_request ''NY.GDP.MINR.RT.ZS'', robust_scrape_request]))
     = Inr (get_fallback_data ''mining'') \<and>
   length (get_fallback_data ''mining'') = 4 \<and>
   map_sum id result_data
     (fst (robust_imf_collect_data ''2025-06-01'' net_down ''population'' []))
     = Inr (get_imf_fallback_data ''population'') \<and>
   map_sum id result_data
     (fst (robust_imf_collect_data ''2025-06-02'' net_down ''population''
             [robust_imf_request]))
     = Inr (get_imf_fallback_data ''population'') \<and>
   length (get_imf_fallback_data ''population'') = 3"
proof -
  let ?api = "robust_api_request ''NY.GDP.MINR.RT.ZS''"
  let ?scr = "robust_scrape_request"
  let ?imf = "robust_imf_request"
  have a: "try_world_bank_api net_down ''mining'' [] = (Inr None, [?api])" by code_simp
  have b: "scrape_world_bank_page ''2025-06-01'' net_down ''mining'' [?api]
             = (Inr None, [?api, ?scr])" by code_simp
  have c: "try_world_bank_api net_down ''mining'' [?api, ?scr]
             = (Inr None, [?api, ?scr, ?api])" by code_simp
  have d: "scrape_world_bank_page ''2025-06-02'' net_down ''mining'' [?api, ?scr, ?api]
             = (Inr None, [?api, ?scr, ?api, ?scr])" by code_simp
  have l: "length (get_fallback_data ''mining'') = 4"
          "length (get_imf_fallback_data ''population'') = 3" by code_simp+
  have e: "scrape_imf_data ''2025-06-01'' net_down ''population'' [] = (Inr None, [?imf])"
    by code_simp
  have f: "scrape_imf_data ''2025-06-02'' net_down ''population'' [?imf]
             = (Inr None, [?imf, ?imf])" by code_simp
  from conjunct1 [OF reference_path_repeatable,
         of net_down "''mining''" "[]" None "[?api]" "''2025-06-01''" None "[?api, ?scr]"
            None "[?api, ?scr, ?api]" "''2025-06-02''" None "[?api, ?scr, ?api, ?scr]"]
       a b c d
  obtain r1 r2 where wb:
    "robust_collect_data ''2025-06-01'' net_down ''mining'' [] = (Inr r1, [?api, ?scr])"
    "robust_collect_data ''2025-06-02'' net_down ''mining'' [?api, ?scr]
       = (Inr r2, [?api, ?scr, ?api, ?scr])"
    "result_data r1 = get_fallback_data ''mining''" "result_data r2 = result_data r1"
    by auto
  from conjunct2 [OF reference_path_repeatable,
         of "''2025-06-01''" net_down "''population''" "[]" None "[?imf]" "''2025-06-02''"
            None "[?imf, ?imf]"]
       e f
  obtain q1 q2 where imf:
    "robust_imf_collect_data ''2025-06-01'' net_down ''population'' [] = (Inr q1, [?imf])"
    "robust_imf_collect_data ''2025-06-02'' net_down ''population'' [?imf]
       = (Inr q2, [?imf, ?imf])"
    "result_data q1 = get_imf_fallback_data ''population''"
    "result_data q2 = result_data q1"
    by auto
  from wb imf l show ?thesis by simp
qed

text \<open>
  C10. In \<^verbatim>\<open>working_collectors.py\<close>, for every topic that is a key of the Indicator
  Catalog, the World Bank collector returns a success result with a non-empty record
  list; when the Fetch loop produces no record, the list is the single placeholder
  record that describes the connection issue.
\<close>

theorem working_placeholder:
  "lower t \<in> set (map fst w_indicators_map) \<longrightarrow>
     (\<exists>data meta. fst (w_collect_data year net t hist) = Inr (Success data meta) \<and>
        data \<noteq> [] \<and>
        (fst (w_fetch_all net (w_get_indicators_by_type t) ([], hist)) = [] \<longrightarrow>
           data = [w_placeholder year t]))"
proof
  assume "lower t \<in> set (map fst w_indicators_map)"
  then have ne: "w_get_indicators_by_type t \<noteq> []" by (rule w_known_nonempty)
  obtain f h where f: "w_fetch_all net (w_get_indicators_by_type t) ([], hist) = (f, h)"
    by (cases "w_fetch_all net (w_get_indicators_by_type t) ([], hist)")
  show "\<exists>data meta. fst (w_collect_data year net t hist) = Inr (Success data meta) \<and>
        data \<noteq> [] \<and>
        (fst (w_fetch_all net (w_get_indicators_by_type t) ([], hist)) = [] \<longrightarrow>
           data = [w_placeholder year t])"
    using ne f by (simp add: w_collect_data_def w_collect_data_body_def Let_def)
qed

theorem working_placeholder_witness:
  "lower ''Health'' \<in> set (map fst w_indicators_map) \<and>
   fst (w_fetch_all net_down (w_get_indicators_by_type ''Health'') ([], [])) = [] \<and>
   map_sum id result_data (fst (w_collect_data 2025 net_down ''Health'' []))
     = Inr [w_placeholder 2025 ''Health'']"
proof -
  have a: "lower ''Health'' \<in> set (map fst w_indicators_map)" by code_simp
  have b: "fst (w_fetch_all net_down (w_get_indicators_by_type ''Health'') ([], [])) = []"
    by code_simp
  from working_placeholder[of "''Health''" 2025 net_down "[]"] a b
  obtain data meta where
    "fst (w_collect_data 2025 net_down ''Health'' []) = Inr (Success data meta)"
    "data = [w_placeholder 2025 ''Health'']" by auto
  with a b show ?thesis by simp
qed

end
